theory Spec2Isabelle
  imports Complex_Main "HOL-Library.Monad_Syntax"
begin

section \<open>Data model of \<^verbatim>\<open>le_path.cpp\<close>\<close>

text \<open>
  The source computes with single-precision \<^verbatim>\<open>float\<close> (and one \<^verbatim>\<open>double\<close>
  accumulator). This development idealises both as \<^typ>\<open>real\<close>: every operation is the
  exact one, without rounding, overflow, infinities or NaN. Statements proved here are
  statements about the algorithm in exact arithmetic. \<^verbatim>\<open>size_t\<close> counters are
  \<^typ>\<open>nat\<close> and the \<^verbatim>\<open>int\<close> counters are \<^typ>\<open>int\<close>; where the source converts a
  floating-point value to one of them, the model checks the range of the type.

  \<^verbatim>\<open>using Vertex = glm::vec2\<close>: a pair, first component \<^verbatim>\<open>x\<close>, second \<^verbatim>\<open>y\<close>.
\<close>

type_synonym Vertex = "real \<times> real"

definition vadd :: "Vertex \<Rightarrow> Vertex \<Rightarrow> Vertex" where
  "vadd a b = (fst a + fst b, snd a + snd b)"

definition vsub :: "Vertex \<Rightarrow> Vertex \<Rightarrow> Vertex" where
  "vsub a b = (fst a - fst b, snd a - snd b)"

definition smul :: "real \<Rightarrow> Vertex \<Rightarrow> Vertex" where
  "smul k a = (k * fst a, k * snd a)"

definition sdiv :: "Vertex \<Rightarrow> real \<Rightarrow> Vertex" where
  "sdiv a k = (fst a / k, snd a / k)"

text \<open>\<^verbatim>\<open>glm::distance(a, b)\<close> is \<^verbatim>\<open>length(b - a)\<close>, that is \<^verbatim>\<open>sqrt(dot(v, v))\<close>.\<close>

definition distance :: "Vertex \<Rightarrow> Vertex \<Rightarrow> real" where
  "distance a b =
     sqrt ((fst b - fst a) * (fst b - fst a) + (snd b - snd a) * (snd b - snd a))"

text \<open>
  \<^verbatim>\<open>struct PathCommand { enum Type ... type; Vertex p, c1, c2; }\<close>. The enumerator
  \<^verbatim>\<open>eCurveTo\<close> is an alias of \<^verbatim>\<open>eQuadBezierTo\<close>. The fields are prefixed with
  \<open>cmd_\<close> since \<open>p\<close>, \<open>c1\<close>, \<open>c2\<close> serve as variable names below.
\<close>

datatype Type = eUnknown | eMoveTo | eLineTo | eQuadBezierTo | eCubicBezierTo | eClosePath

record PathCommand =
  cmd_type :: Type
  cmd_p :: Vertex
  cmd_c1 :: Vertex
  cmd_c2 :: Vertex

record SubPath =
  commands :: "PathCommand list"

record Polyline =
  vertices :: "Vertex list"
  distances :: "real list"
  total_distance :: real

record le_path_o =
  subpaths :: "SubPath list"
  polylines :: "Polyline list"
  sample_interval :: real

text \<open>
  What stops a call instead of returning: a failed \<^verbatim>\<open>assert\<close> (the asserts are
  modelled as active), and behaviour the language leaves undefined (\<^verbatim>\<open>back()\<close> or
  \<^verbatim>\<open>front()\<close> of an empty vector, a float-to-integer conversion of a value that is
  not representable).
\<close>

datatype fault = AssertionFailed | UndefinedBehaviour

text \<open>Aggregate initialisation \<^verbatim>\<open>{type, p, c1, c2}\<close>: omitted members are zero.\<close>

definition zero_vertex :: Vertex where
  "zero_vertex = (0, 0)"

definition default_polyline :: Polyline where
  "default_polyline = \<lparr>vertices = [], distances = [], total_distance = 0\<rparr>"

section \<open>Creation, clearing, queries\<close>

definition le_path_create :: le_path_o where
  "le_path_create = \<lparr>subpaths = [], polylines = [], sample_interval = 0\<rparr>"

definition le_path_clear :: "le_path_o \<Rightarrow> le_path_o" where
  "le_path_clear self = self\<lparr>subpaths := [], polylines := []\<rparr>"

definition le_path_get_num_polylines :: "le_path_o \<Rightarrow> nat" where
  "le_path_get_num_polylines self = length (polylines self)"

section \<open>Path builder\<close>

text \<open>Appending a command to the last sub-path: \<^verbatim>\<open>subpaths.back().commands.push_back\<close>.\<close>

definition push_command :: "le_path_o \<Rightarrow> PathCommand \<Rightarrow> le_path_o" where
  "push_command self c =
     self\<lparr>subpaths :=
       butlast (subpaths self) @
       [(last (subpaths self))\<lparr>commands := commands (last (subpaths self)) @ [c]\<rparr>]\<rparr>"

definition le_path_move_to :: "le_path_o \<Rightarrow> Vertex \<Rightarrow> le_path_o" where
  "le_path_move_to self p0 =
     self\<lparr>subpaths := subpaths self @
       [\<lparr>commands = [\<lparr>cmd_type = eMoveTo, cmd_p = p0,
                       cmd_c1 = zero_vertex, cmd_c2 = zero_vertex\<rparr>]\<rparr>]\<rparr>"

definition le_path_line_to :: "le_path_o \<Rightarrow> Vertex \<Rightarrow> fault + le_path_o" where
  "le_path_line_to self p0 =
     (if subpaths self = [] then Inl AssertionFailed
      else Inr (push_command self
             \<lparr>cmd_type = eLineTo, cmd_p = p0, cmd_c1 = zero_vertex, cmd_c2 = zero_vertex\<rparr>))"

text \<open>
  \<^verbatim>\<open>le_path_get_previous_p\<close> returns a pointer that may be null, and may print a warning
  to \<^verbatim>\<open>stderr\<close>. The model returns the optional vertex together with the lines printed.
  The text of the warning is kept up to the source position that \<^verbatim>\<open>__FILE__\<close> and
  \<^verbatim>\<open>__LINE__\<close> append.
\<close>

definition relative_warning :: string where
  "relative_warning =
     ''Warning: Relative path instruction requires absolute position to be known.''"

definition le_path_get_previous_p :: "le_path_o \<Rightarrow> fault + (Vertex option \<times> string list)" where
  "le_path_get_previous_p self =
     (if subpaths self = [] then Inl AssertionFailed
      else if commands (last (subpaths self)) = [] then Inl AssertionFailed
      else
        let c = last (commands (last (subpaths self))) in
        (case cmd_type c of
           eMoveTo \<Rightarrow> Inr (Some (cmd_p c), [])
         | eLineTo \<Rightarrow> Inr (Some (cmd_p c), [])
         | eQuadBezierTo \<Rightarrow> Inr (Some (cmd_p c), [])
         | eCubicBezierTo \<Rightarrow> Inr (Some (cmd_p c), [])
         | _ \<Rightarrow> Inr (None, [relative_warning])))"

definition le_path_line_horiz_to :: "le_path_o \<Rightarrow> real \<Rightarrow> fault + (le_path_o \<times> string list)" where
  "le_path_line_horiz_to self px =
     (if subpaths self = [] then Inl AssertionFailed
      else if commands (last (subpaths self)) = [] then Inl AssertionFailed
      else
        (case le_path_get_previous_p self of
           Inl f \<Rightarrow> Inl f
         | Inr (None, err) \<Rightarrow> Inr (self, err)
         | Inr (Some q, err) \<Rightarrow>
             (case le_path_line_to self (px, snd q) of
                Inl f \<Rightarrow> Inl f
              | Inr self' \<Rightarrow> Inr (self', err))))"

definition le_path_line_vert_to :: "le_path_o \<Rightarrow> real \<Rightarrow> fault + (le_path_o \<times> string list)" where
  "le_path_line_vert_to self py =
     (if subpaths self = [] then Inl AssertionFailed
      else if commands (last (subpaths self)) = [] then Inl AssertionFailed
      else
        (case le_path_get_previous_p self of
           Inl f \<Rightarrow> Inl f
         | Inr (None, err) \<Rightarrow> Inr (self, err)
         | Inr (Some q, err) \<Rightarrow>
             (case le_path_line_to self (fst q, py) of
                Inl f \<Rightarrow> Inl f
              | Inr self' \<Rightarrow> Inr (self', err))))"

definition le_path_quad_bezier_to :: "le_path_o \<Rightarrow> Vertex \<Rightarrow> Vertex \<Rightarrow> fault + le_path_o" where
  "le_path_quad_bezier_to self p0 c =
     (if subpaths self = [] then Inl AssertionFailed
      else Inr (push_command self
             \<lparr>cmd_type = eQuadBezierTo, cmd_p = p0, cmd_c1 = c, cmd_c2 = zero_vertex\<rparr>))"

definition le_path_cubic_bezier_to ::
  "le_path_o \<Rightarrow> Vertex \<Rightarrow> Vertex \<Rightarrow> Vertex \<Rightarrow> fault + le_path_o" where
  "le_path_cubic_bezier_to self p0 c c' =
     (if subpaths self = [] then Inl AssertionFailed
      else Inr (push_command self
             \<lparr>cmd_type = eCubicBezierTo, cmd_p = p0, cmd_c1 = c, cmd_c2 = c'\<rparr>))"

text \<open>\<^verbatim>\<open>le_path_close_path\<close> has no assert: on a path with no sub-path, \<^verbatim>\<open>back()\<close> is undefined.\<close>

definition le_path_close_path :: "le_path_o \<Rightarrow> fault + le_path_o" where
  "le_path_close_path self =
     (if subpaths self = [] then Inl UndefinedBehaviour
      else Inr (push_command self
             \<lparr>cmd_type = eClosePath, cmd_p = zero_vertex,
              cmd_c1 = zero_vertex, cmd_c2 = zero_vertex\<rparr>))"

section \<open>Tracer\<close>

definition trace_move_to :: "Polyline \<Rightarrow> Vertex \<Rightarrow> Polyline" where
  "trace_move_to polyline p0 =
     polyline\<lparr>distances := distances polyline @ [0], vertices := vertices polyline @ [p0]\<rparr>"

text \<open>Appending an evaluated point: the three statements shared by the tracer's functions.\<close>

definition trace_append :: "Polyline \<Rightarrow> Vertex \<Rightarrow> Vertex \<Rightarrow> Polyline" where
  "trace_append polyline b p_prev =
     (let td = total_distance polyline + distance b p_prev in
      polyline\<lparr>total_distance := td,
                distances := distances polyline @ [td],
                vertices := vertices polyline @ [b]\<rparr>)"

definition trace_line_to :: "Polyline \<Rightarrow> Vertex \<Rightarrow> fault + Polyline" where
  "trace_line_to polyline p0 =
     (if vertices polyline = [] then Inl UndefinedBehaviour
      else Inr (trace_append polyline p0 (last (vertices polyline))))"

definition trace_close_path :: "Polyline \<Rightarrow> fault + Polyline" where
  "trace_close_path polyline =
     (if vertices polyline = [] then Inl UndefinedBehaviour
      else trace_line_to polyline (hd (vertices polyline)))"

text \<open>The curve points, as the loops compute them from \<open>t\<close>.\<close>

definition quad_bezier_point :: "Vertex \<Rightarrow> Vertex \<Rightarrow> Vertex \<Rightarrow> real \<Rightarrow> Vertex" where
  "quad_bezier_point p0 c p1 t =
     (let t_sq = t * t;
          one_minus_t = 1 - t;
          one_minus_t_sq = one_minus_t * one_minus_t
      in vadd (vadd (smul one_minus_t_sq p0) (smul (2 * one_minus_t * t) c)) (smul t_sq p1))"

definition cubic_bezier_point :: "Vertex \<Rightarrow> Vertex \<Rightarrow> Vertex \<Rightarrow> Vertex \<Rightarrow> real \<Rightarrow> Vertex" where
  "cubic_bezier_point p0 c c' p1 t =
     (let t_sq = t * t;
          t_cub = t_sq * t;
          one_minus_t = 1 - t;
          one_minus_t_sq = one_minus_t * one_minus_t;
          one_minus_t_cub = one_minus_t_sq * one_minus_t
      in vadd (vadd (vadd (smul one_minus_t_cub p0) (smul (3 * one_minus_t_sq * t) c))
                    (smul (3 * one_minus_t * t_sq) c'))
              (smul t_cub p1))"

text \<open>
  The loop \<^verbatim>\<open>for (size_t i = 1; i <= resolution; i++)\<close> of both tracing functions, over
  the list of its indices; the state is the polyline and \<^verbatim>\<open>p_prev\<close>. The two loops
  differ in the curve point only, which is the parameter \<open>curve\<close>.
\<close>

fun trace_bezier_loop ::
  "(real \<Rightarrow> Vertex) \<Rightarrow> real \<Rightarrow> nat list \<Rightarrow> Polyline \<times> Vertex \<Rightarrow> Polyline \<times> Vertex" where
  "trace_bezier_loop curve delta_t [] st = st"
| "trace_bezier_loop curve delta_t (i # is) (polyline, p_prev) =
     (let t = real i * delta_t;
          b = curve t
      in trace_bezier_loop curve delta_t is (trace_append polyline b p_prev, b))"

definition trace_quad_bezier_to :: "Polyline \<Rightarrow> Vertex \<Rightarrow> Vertex \<Rightarrow> nat \<Rightarrow> fault + Polyline" where
  "trace_quad_bezier_to polyline p1 c resolution =
     (if resolution = 0 then Inr polyline
      else if resolution = 1 then trace_line_to polyline p1
      else if vertices polyline = [] then Inl AssertionFailed
      else
        let p0 = last (vertices polyline);
            delta_t = 1 / real resolution
        in Inr (fst (trace_bezier_loop (quad_bezier_point p0 c p1) delta_t
                       [1..<Suc resolution] (polyline, p0))))"

definition trace_cubic_bezier_to ::
  "Polyline \<Rightarrow> Vertex \<Rightarrow> Vertex \<Rightarrow> Vertex \<Rightarrow> nat \<Rightarrow> fault + Polyline" where
  "trace_cubic_bezier_to polyline p1 c c' resolution =
     (if resolution = 0 then Inr polyline
      else if resolution = 1 then Inr (polyline\<lparr>vertices := vertices polyline @ [p1]\<rparr>)
      else if vertices polyline = [] then Inl AssertionFailed
      else
        let p0 = last (vertices polyline);
            delta_t = 1 / real resolution
        in Inr (fst (trace_bezier_loop (cubic_bezier_point p0 c c' p1) delta_t
                       [1..<Suc resolution] (polyline, p0))))"

text \<open>\<^verbatim>\<open>constexpr size_t resolution = 12\<close> in \<^verbatim>\<open>le_path_trace_path\<close>.\<close>

definition trace_resolution :: nat where
  "trace_resolution = 12"

text \<open>The \<^verbatim>\<open>switch\<close> of \<^verbatim>\<open>le_path_trace_path\<close>, and its loop over the commands.\<close>

definition trace_command :: "Polyline \<Rightarrow> PathCommand \<Rightarrow> fault + Polyline" where
  "trace_command polyline command =
     (case cmd_type command of
        eMoveTo \<Rightarrow> Inr (trace_move_to polyline (cmd_p command))
      | eLineTo \<Rightarrow> trace_line_to polyline (cmd_p command)
      | eQuadBezierTo \<Rightarrow>
          trace_quad_bezier_to polyline (cmd_p command) (cmd_c1 command) trace_resolution
      | eCubicBezierTo \<Rightarrow>
          trace_cubic_bezier_to polyline (cmd_p command) (cmd_c1 command) (cmd_c2 command)
            trace_resolution
      | eClosePath \<Rightarrow> trace_close_path polyline
      | eUnknown \<Rightarrow> Inl AssertionFailed)"

fun trace_commands :: "Polyline \<Rightarrow> PathCommand list \<Rightarrow> fault + Polyline" where
  "trace_commands polyline [] = Inr polyline"
| "trace_commands polyline (command # cs) =
     (case trace_command polyline command of
        Inl f \<Rightarrow> Inl f
      | Inr polyline' \<Rightarrow> trace_commands polyline' cs)"

text \<open>One sub-path: a fresh polyline, the commands, then the assert on the two sizes.\<close>

definition trace_subpath :: "SubPath \<Rightarrow> fault + Polyline" where
  "trace_subpath s =
     (case trace_commands default_polyline (commands s) of
        Inl f \<Rightarrow> Inl f
      | Inr polyline \<Rightarrow>
          if length (vertices polyline) = length (distances polyline) then Inr polyline
          else Inl AssertionFailed)"

fun trace_subpaths :: "SubPath list \<Rightarrow> fault + Polyline list" where
  "trace_subpaths [] = Inr []"
| "trace_subpaths (s # ss) =
     (case trace_subpath s of
        Inl f \<Rightarrow> Inl f
      | Inr polyline \<Rightarrow>
          (case trace_subpaths ss of
             Inl f \<Rightarrow> Inl f
           | Inr pls \<Rightarrow> Inr (polyline # pls)))"

definition le_path_trace_path :: "le_path_o \<Rightarrow> fault + le_path_o" where
  "le_path_trace_path self =
     (case trace_subpaths (subpaths self) of
        Inl f \<Rightarrow> Inl f
      | Inr pls \<Rightarrow> Inr (self\<lparr>polylines := pls\<rparr>))"

section \<open>Resampler\<close>

definition resample_move_to :: "Polyline \<Rightarrow> Vertex \<Rightarrow> Polyline" where
  "resample_move_to polyline p0 = polyline\<lparr>vertices := vertices polyline @ [p0]\<rparr>"

text \<open>
  The conversions \<^verbatim>\<open>int(std::floor(x))\<close> and \<^verbatim>\<open>size_t(std::floor(x))\<close> of a
  floating-point value are undefined when the floor is outside the range of the target
  type: \<^verbatim>\<open>int\<close> has 32 bits, \<^verbatim>\<open>size_t\<close> is taken with 64 bits.
\<close>

definition int_floor :: "real \<Rightarrow> fault + int" where
  "int_floor x =
     (if - 2147483648 \<le> \<lfloor>x\<rfloor> \<and> \<lfloor>x\<rfloor> \<le> 2147483647 then Inr \<lfloor>x\<rfloor>
      else Inl UndefinedBehaviour)"

definition size_t_floor :: "real \<Rightarrow> fault + nat" where
  "size_t_floor x =
     (if 0 \<le> \<lfloor>x\<rfloor> \<and> \<lfloor>x\<rfloor> \<le> 18446744073709551615 then Inr (nat \<lfloor>x\<rfloor>)
      else Inl UndefinedBehaviour)"

text \<open>
  The two locals of \<^verbatim>\<open>resample_line_to\<close>:
  \<^verbatim>\<open>start_distance = sum - floor(sum / interval) * interval\<close>, where the floor stays a
  \<^verbatim>\<open>float\<close>, and
  \<^verbatim>\<open>n_intervals = int(floor((distance - start_distance) / interval))\<close>.
\<close>

definition start_distance_of :: "real \<Rightarrow> real \<Rightarrow> real" where
  "start_distance_of sum_distance interval =
     sum_distance - of_int \<lfloor>sum_distance / interval\<rfloor> * interval"

definition n_intervals_of :: "real \<Rightarrow> real \<Rightarrow> real \<Rightarrow> fault + int" where
  "n_intervals_of d start_distance interval = int_floor ((d - start_distance) / interval)"

text \<open>
  The state of the resampler is the polyline and \<^verbatim>\<open>*sum_distance\<close>. With
  \<^verbatim>\<open>interval == 0\<close> the float divisions give infinities or NaN and the conversion to
  \<^verbatim>\<open>int\<close> is undefined; the model stops there, as it does when the conversion is out
  of range. The loop \<^verbatim>\<open>for (int i = 1; i <= n_intervals; ++i)\<close> increments \<open>i\<close> once
  more after its last pass, which overflows when \<^verbatim>\<open>n_intervals\<close> is the largest
  \<^verbatim>\<open>int\<close>: undefined as well. \<open>direction\<close> divides by \<open>d\<close>, which may be 0: the
  quotient is then used by no iteration.
\<close>

definition resample_line_to ::
  "Polyline \<Rightarrow> Vertex \<Rightarrow> real \<Rightarrow> real \<Rightarrow> fault + (Polyline \<times> real)" where
  "resample_line_to polyline p1 interval sum_distance =
     (if vertices polyline = [] then Inl AssertionFailed
      else if interval = 0 then Inl UndefinedBehaviour
      else
        let start_point = last (vertices polyline);
            d = distance p1 start_point;
            direction = sdiv (vsub p1 start_point) d;
            start_distance = start_distance_of sum_distance interval
        in (case n_intervals_of d start_distance interval of
              Inl f \<Rightarrow> Inl f
            | Inr n_intervals \<Rightarrow>
                if n_intervals = 2147483647 then Inl UndefinedBehaviour
                else
                  Inr (polyline\<lparr>vertices := vertices polyline @
                         map (\<lambda>i. vadd start_point
                                    (smul (of_int i * interval + start_distance) direction))
                             [1..n_intervals]\<rparr>,
                       sum_distance + (start_distance + of_int n_intervals * interval))))"

text \<open>
  The loop of the two curve resamplers. State: the polyline, \<^verbatim>\<open>num_intervals\<close>,
  \<^verbatim>\<open>*sum_distance\<close>, \<^verbatim>\<open>last_vertex_distance\<close> and \<^verbatim>\<open>previous_vertex\<close>.
\<close>

fun resample_bezier_loop ::
  "(real \<Rightarrow> Vertex) \<Rightarrow> real \<Rightarrow> real \<Rightarrow> nat list \<Rightarrow>
   Polyline \<times> nat \<times> real \<times> real \<times> Vertex \<Rightarrow>
   fault + (Polyline \<times> nat \<times> real \<times> real \<times> Vertex)" where
  "resample_bezier_loop curve delta_t interval [] st = Inr st"
| "resample_bezier_loop curve delta_t interval (i # is)
     (polyline, num_intervals, sum_distance, last_vertex_distance, previous_vertex) =
     (let t = real i * delta_t;
          b = curve t;
          d = distance previous_vertex b;
          lvd = last_vertex_distance + d
      in case size_t_floor (lvd / interval) of
           Inl f \<Rightarrow> Inl f
         | Inr current_interval \<Rightarrow>
             if current_interval > num_intervals
             then resample_bezier_loop curve delta_t interval is
                    (polyline\<lparr>vertices := vertices polyline @ [b]\<rparr>,
                     current_interval, lvd, lvd, b)
             else resample_bezier_loop curve delta_t interval is
                    (polyline, num_intervals, sum_distance, lvd, b))"

definition resample_bezier ::
  "(real \<Rightarrow> Vertex) \<Rightarrow> Polyline \<Rightarrow> nat \<Rightarrow> real \<Rightarrow> real \<Rightarrow> fault + (Polyline \<times> real)" where
  "resample_bezier curve polyline resolution interval sum_distance =
     (if vertices polyline = [] then Inl AssertionFailed
      else if interval = 0 then Inl UndefinedBehaviour
      else
        let p0 = last (vertices polyline);
            delta_t = 1 / real resolution
        in (case size_t_floor (sum_distance / interval) of
              Inl f \<Rightarrow> Inl f
            | Inr num_intervals \<Rightarrow>
                (case resample_bezier_loop curve delta_t interval [1..<Suc resolution]
                        (polyline, num_intervals, sum_distance, sum_distance, p0) of
                   Inl f \<Rightarrow> Inl f
                 | Inr (polyline', _, sum_distance', _, _) \<Rightarrow> Inr (polyline', sum_distance'))))"

definition resample_quad_bezier_to ::
  "Polyline \<Rightarrow> Vertex \<Rightarrow> Vertex \<Rightarrow> nat \<Rightarrow> real \<Rightarrow> real \<Rightarrow> fault + (Polyline \<times> real)" where
  "resample_quad_bezier_to polyline p1 c resolution interval sum_distance =
     (if resolution = 0 then Inr (polyline, sum_distance)
      else if resolution = 1 then resample_line_to polyline p1 interval sum_distance
      else resample_bezier (quad_bezier_point (last (vertices polyline)) c p1)
             polyline resolution interval sum_distance)"

definition resample_cubic_bezier_to ::
  "Polyline \<Rightarrow> Vertex \<Rightarrow> Vertex \<Rightarrow> Vertex \<Rightarrow> nat \<Rightarrow> real \<Rightarrow> real \<Rightarrow>
   fault + (Polyline \<times> real)" where
  "resample_cubic_bezier_to polyline p1 c c' resolution interval sum_distance =
     (if resolution = 0 then Inr (polyline, sum_distance)
      else if resolution = 1 then resample_line_to polyline p1 interval sum_distance
      else resample_bezier (cubic_bezier_point (last (vertices polyline)) c c' p1)
             polyline resolution interval sum_distance)"

definition resample_close_path :: "Polyline \<Rightarrow> real \<Rightarrow> real \<Rightarrow> fault + (Polyline \<times> real)" where
  "resample_close_path polyline interval sum_distance =
     (if vertices polyline = [] then Inl UndefinedBehaviour
      else
        (case resample_line_to polyline (hd (vertices polyline)) interval sum_distance of
           Inl f \<Rightarrow> Inl f
         | Inr (polyline', sum_distance') \<Rightarrow>
             Inr (polyline'\<lparr>vertices := vertices polyline' @ [hd (vertices polyline')]\<rparr>,
                  sum_distance' +
                    distance (hd (vertices polyline')) (last (vertices polyline')))))"

text \<open>\<^verbatim>\<open>constexpr size_t resolution = 100\<close> in \<^verbatim>\<open>le_path_resample\<close>.\<close>

definition resample_resolution :: nat where
  "resample_resolution = 100"

definition resample_command ::
  "real \<Rightarrow> Polyline \<times> real \<Rightarrow> PathCommand \<Rightarrow> fault + (Polyline \<times> real)" where
  "resample_command interval st command =
     (case cmd_type command of
        eMoveTo \<Rightarrow> Inr (resample_move_to (fst st) (cmd_p command), snd st)
      | eLineTo \<Rightarrow> resample_line_to (fst st) (cmd_p command) interval (snd st)
      | eQuadBezierTo \<Rightarrow>
          resample_quad_bezier_to (fst st) (cmd_p command) (cmd_c1 command)
            resample_resolution interval (snd st)
      | eCubicBezierTo \<Rightarrow>
          resample_cubic_bezier_to (fst st) (cmd_p command) (cmd_c1 command) (cmd_c2 command)
            resample_resolution interval (snd st)
      | eClosePath \<Rightarrow> resample_close_path (fst st) interval (snd st)
      | eUnknown \<Rightarrow> Inl AssertionFailed)"

fun resample_commands ::
  "real \<Rightarrow> Polyline \<times> real \<Rightarrow> PathCommand list \<Rightarrow> fault + (Polyline \<times> real)" where
  "resample_commands interval st [] = Inr st"
| "resample_commands interval st (command # cs) =
     (case resample_command interval st command of
        Inl f \<Rightarrow> Inl f
      | Inr st' \<Rightarrow> resample_commands interval st' cs)"

definition resample_subpath :: "real \<Rightarrow> SubPath \<Rightarrow> fault + Polyline" where
  "resample_subpath interval s =
     (case resample_commands interval (default_polyline, 0) (commands s) of
        Inl f \<Rightarrow> Inl f
      | Inr st \<Rightarrow> Inr (fst st))"

fun resample_subpaths :: "real \<Rightarrow> SubPath list \<Rightarrow> fault + Polyline list" where
  "resample_subpaths interval [] = Inr []"
| "resample_subpaths interval (s # ss) =
     (case resample_subpath interval s of
        Inl f \<Rightarrow> Inl f
      | Inr polyline \<Rightarrow>
          (case resample_subpaths interval ss of
             Inl f \<Rightarrow> Inl f
           | Inr pls \<Rightarrow> Inr (polyline # pls)))"

definition le_path_resample :: "le_path_o \<Rightarrow> real \<Rightarrow> fault + le_path_o" where
  "le_path_resample self interval =
     (case resample_subpaths interval (subpaths self) of
        Inl f \<Rightarrow> Inl f
      | Inr pls \<Rightarrow> Inr (self\<lparr>polylines := pls, sample_interval := interval\<rparr>))"

section \<open>Mini-parser\<close>

text \<open>
  A C string is modelled by the list of its characters before the terminating NUL, so
  \<^verbatim>\<open>*c == 0\<close> is \<open>c = []\<close> and \<^verbatim>\<open>c + n\<close> is \<open>drop n c\<close>.

  \<^verbatim>\<open>strtof\<close> belongs to the C library, not to the repository. The model follows the
  C standard for decimal input: optional white space (\<^verbatim>\<open>isspace\<close> in the C locale), an
  optional sign, digits with an optional fraction (at least one digit in all), and an
  optional exponent, which counts only when it has a digit. It returns the value and the
  number of characters converted, 0 when there is no conversion. The forms \<^verbatim>\<open>inf\<close>,
  \<^verbatim>\<open>nan\<close> and hexadecimal input are outside the model, and the value is the exact
  decimal, not its nearest \<^verbatim>\<open>float\<close>.
\<close>

definition is_space_char :: "char \<Rightarrow> bool" where
  "is_space_char ch =
     (ch = CHR 0x20 \<or> ch = CHR 0x09 \<or> ch = CHR 0x0A \<or> ch = CHR 0x0B \<or> ch = CHR 0x0C \<or>
      ch = CHR 0x0D)"

definition is_digit_char :: "char \<Rightarrow> bool" where
  "is_digit_char ch = (48 \<le> (of_char ch :: nat) \<and> (of_char ch :: nat) \<le> 57)"

definition digits_value :: "string \<Rightarrow> nat" where
  "digits_value ds = foldl (\<lambda>acc ch. 10 * acc + (of_char ch - 48)) 0 ds"

definition is_sign_char :: "char \<Rightarrow> bool" where
  "is_sign_char ch = (ch = CHR ''+'' \<or> ch = CHR ''-'')"

definition strtof :: "string \<Rightarrow> real \<times> nat" where
  "strtof s =
     (let ws = takeWhile is_space_char s;
          s1 = drop (length ws) s;
          sign_len = (if s1 \<noteq> [] \<and> is_sign_char (hd s1) then 1 else 0);
          negative = (s1 \<noteq> [] \<and> hd s1 = CHR ''-'');
          s2 = drop sign_len s1;
          int_digits = takeWhile is_digit_char s2;
          s3 = drop (length int_digits) s2;
          has_point = (s3 \<noteq> [] \<and> hd s3 = CHR ''.'');
          frac_digits = (if has_point then takeWhile is_digit_char (tl s3) else []);
          point_len = (if has_point then 1 + length frac_digits else 0);
          s4 = drop point_len s3;
          has_e = (s4 \<noteq> [] \<and> (hd s4 = CHR ''e'' \<or> hd s4 = CHR ''E''));
          s5 = (if has_e then tl s4 else []);
          esign_len = (if s5 \<noteq> [] \<and> is_sign_char (hd s5) then 1 else 0);
          eneg = (s5 \<noteq> [] \<and> hd s5 = CHR ''-'');
          exp_digits = takeWhile is_digit_char (drop esign_len s5);
          exp_len = (if exp_digits = [] then 0 else 1 + esign_len + length exp_digits);
          mantissa = real (digits_value int_digits) +
                     real (digits_value frac_digits) / 10 ^ length frac_digits;
          scaled = (if eneg then mantissa / 10 ^ digits_value exp_digits
                    else mantissa * 10 ^ digits_value exp_digits)
      in if int_digits = [] \<and> frac_digits = [] then (0, 0)
         else (if negative then - scaled else scaled,
               length ws + sign_len + length int_digits + point_len + exp_len))"

text \<open>
  The matchers return \<^verbatim>\<open>bool\<close> and write through pointers. A matcher that fails leaves
  the caller's \<^verbatim>\<open>*offset\<close> as it was, and what it wrote to a vertex is overwritten
  before any later use, so the model returns \<open>None\<close> for \<^verbatim>\<open>false\<close>, and for
  \<^verbatim>\<open>true\<close> the new value of \<^verbatim>\<open>*offset\<close> with the values written. The \<^verbatim>\<open>int\<close>
  offsets are natural numbers here.
\<close>

definition add_offsets :: "nat \<Rightarrow> nat \<Rightarrow> nat" where
  "add_offsets offset_local offset_total = offset_total + offset_local"

definition is_float_number :: "string \<Rightarrow> nat \<Rightarrow> (nat \<times> real) option" where
  "is_float_number c offset =
     (if c = [] then None
      else if snd (strtof c) \<noteq> 0 then Some (offset + snd (strtof c), fst (strtof c))
      else None)"

definition is_character_match :: "char \<Rightarrow> string \<Rightarrow> nat \<Rightarrow> nat option" where
  "is_character_match needle c offset =
     (if c = [] then None
      else if hd c = needle then Some (offset + 1)
      else None)"

definition is_whitespace_char :: "char \<Rightarrow> bool" where
  "is_whitespace_char ch = (ch = CHR 0x20 \<or> ch = CHR 0x09 \<or> ch = CHR 0x0D \<or> ch = CHR 0x0A)"

definition is_whitespace :: "string \<Rightarrow> nat \<Rightarrow> nat option" where
  "is_whitespace c offset =
     (if c = [] then None
      else if takeWhile is_whitespace_char c \<noteq> []
           then Some (offset + length (takeWhile is_whitespace_char c))
      else None)"

definition is_coordinate_pair :: "string \<Rightarrow> nat \<Rightarrow> (nat \<times> Vertex) option" where
  "is_coordinate_pair c offset =
     (if c = [] then None
      else do {
        (o1, vx) \<leftarrow> is_float_number c 0;
        o2 \<leftarrow> is_character_match CHR '','' (drop o1 c) o1;
        (o3, vy) \<leftarrow> is_float_number (drop o2 c) o2;
        Some (add_offsets o3 offset, (vx, vy))
      })"

definition is_m_instruction :: "string \<Rightarrow> nat \<Rightarrow> (nat \<times> Vertex) option" where
  "is_m_instruction c offset =
     (if c = [] then None
      else do {
        o1 \<leftarrow> is_character_match CHR ''M'' c 0;
        o2 \<leftarrow> is_whitespace (drop o1 c) o1;
        (o3, p0) \<leftarrow> is_coordinate_pair (drop o2 c) o2;
        Some (add_offsets o3 offset, p0)
      })"

definition is_l_instruction :: "string \<Rightarrow> nat \<Rightarrow> (nat \<times> Vertex) option" where
  "is_l_instruction c offset =
     (if c = [] then None
      else do {
        o1 \<leftarrow> is_character_match CHR ''L'' c 0;
        o2 \<leftarrow> is_whitespace (drop o1 c) o1;
        (o3, p0) \<leftarrow> is_coordinate_pair (drop o2 c) o2;
        Some (add_offsets o3 offset, p0)
      })"

definition is_h_instruction :: "string \<Rightarrow> nat \<Rightarrow> (nat \<times> real) option" where
  "is_h_instruction c offset =
     (if c = [] then None
      else do {
        o1 \<leftarrow> is_character_match CHR ''H'' c 0;
        o2 \<leftarrow> is_whitespace (drop o1 c) o1;
        (o3, px) \<leftarrow> is_float_number (drop o2 c) o2;
        Some (add_offsets o3 offset, px)
      })"

definition is_v_instruction :: "string \<Rightarrow> nat \<Rightarrow> (nat \<times> real) option" where
  "is_v_instruction c offset =
     (if c = [] then None
      else do {
        o1 \<leftarrow> is_character_match CHR ''V'' c 0;
        o2 \<leftarrow> is_whitespace (drop o1 c) o1;
        (o3, py) \<leftarrow> is_float_number (drop o2 c) o2;
        Some (add_offsets o3 offset, py)
      })"

definition is_c_instruction :: "string \<Rightarrow> nat \<Rightarrow> (nat \<times> Vertex \<times> Vertex \<times> Vertex) option" where
  "is_c_instruction c offset =
     (if c = [] then None
      else do {
        o1 \<leftarrow> is_character_match CHR ''C'' c 0;
        o2 \<leftarrow> is_whitespace (drop o1 c) o1;
        (o3, p0) \<leftarrow> is_coordinate_pair (drop o2 c) o2;
        o4 \<leftarrow> is_whitespace (drop o3 c) o3;
        (o5, p1) \<leftarrow> is_coordinate_pair (drop o4 c) o4;
        o6 \<leftarrow> is_whitespace (drop o5 c) o5;
        (o7, p2) \<leftarrow> is_coordinate_pair (drop o6 c) o6;
        Some (add_offsets o7 offset, p0, p1, p2)
      })"

definition is_q_instruction :: "string \<Rightarrow> nat \<Rightarrow> (nat \<times> Vertex \<times> Vertex) option" where
  "is_q_instruction c offset =
     (if c = [] then None
      else do {
        o1 \<leftarrow> is_character_match CHR ''Q'' c 0;
        o2 \<leftarrow> is_whitespace (drop o1 c) o1;
        (o3, p0) \<leftarrow> is_coordinate_pair (drop o2 c) o2;
        o4 \<leftarrow> is_whitespace (drop o3 c) o3;
        (o5, p1) \<leftarrow> is_coordinate_pair (drop o4 c) o4;
        Some (add_offsets o5 offset, p0, p1)
      })"

text \<open>
  One pass of the body of the loop of \<^verbatim>\<open>le_path_add_from_simplified_svg\<close>: the
  matchers in the order of the source, the builder call of the first that matches, and
  the number of characters to advance by. The state is the path and the lines printed to
  \<^verbatim>\<open>stderr\<close> so far.
\<close>

definition svg_step ::
  "le_path_o \<times> string list \<Rightarrow> string \<Rightarrow> fault + ((le_path_o \<times> string list) \<times> nat)" where
  "svg_step st c =
     (case is_m_instruction c 0 of
        Some (offset, p0) \<Rightarrow> Inr ((le_path_move_to (fst st) p0, snd st), offset)
      | None \<Rightarrow>
     (case is_l_instruction c 0 of
        Some (offset, p0) \<Rightarrow>
          (case le_path_line_to (fst st) p0 of
             Inl f \<Rightarrow> Inl f
           | Inr self' \<Rightarrow> Inr ((self', snd st), offset))
      | None \<Rightarrow>
     (case is_h_instruction c 0 of
        Some (offset, px) \<Rightarrow>
          (case le_path_line_horiz_to (fst st) px of
             Inl f \<Rightarrow> Inl f
           | Inr (self', err) \<Rightarrow> Inr ((self', snd st @ err), offset))
      | None \<Rightarrow>
     (case is_v_instruction c 0 of
        Some (offset, py) \<Rightarrow>
          (case le_path_line_vert_to (fst st) py of
             Inl f \<Rightarrow> Inl f
           | Inr (self', err) \<Rightarrow> Inr ((self', snd st @ err), offset))
      | None \<Rightarrow>
     (case is_c_instruction c 0 of
        Some (offset, p0, p1, p2) \<Rightarrow>
          (case le_path_cubic_bezier_to (fst st) p2 p0 p1 of
             Inl f \<Rightarrow> Inl f
           | Inr self' \<Rightarrow> Inr ((self', snd st), offset))
      | None \<Rightarrow>
     (case is_q_instruction c 0 of
        Some (offset, p0, p1) \<Rightarrow>
          (case le_path_quad_bezier_to (fst st) p1 p0 of
             Inl f \<Rightarrow> Inl f
           | Inr self' \<Rightarrow> Inr ((self', snd st), offset))
      | None \<Rightarrow>
     (case is_character_match CHR ''Z'' c 0 of
        Some offset \<Rightarrow>
          (case le_path_close_path (fst st) of
             Inl f \<Rightarrow> Inl f
           | Inr self' \<Rightarrow> Inr ((self', snd st), offset))
      | None \<Rightarrow> Inr (st, 1))))))))"

text \<open>
  The loop \<^verbatim>\<open>for ( ; *c != 0; )\<close>, advancing by \<^verbatim>\<open>c += offset\<close> or \<^verbatim>\<open>++c\<close>. It
  terminates since every pass advances by at least one character: a matcher that
  succeeds has matched its letter first, and no later matcher decreases the offset.
\<close>

function svg_loop :: "le_path_o \<times> string list \<Rightarrow> string \<Rightarrow> fault + (le_path_o \<times> string list)" where
  "svg_loop st c =
     (if c = [] then Inr st
      else
        (case svg_step st c of
           Inl f \<Rightarrow> Inl f
         | Inr (st', offset) \<Rightarrow> svg_loop st' (drop offset c)))"
  by pat_completeness auto
termination
proof (relation "measure (\<lambda>(st, c). length c)")
  show "wf (measure (\<lambda>(st, c). length c))"
    by simp
next
  fix st :: "le_path_o \<times> string list" and c :: string and x2 st' and offset :: nat
  assume c: "c \<noteq> []" and step: "svg_step st c = Inr x2" and x2: "(st', offset) = x2"
  have cm: "n = k + 1" if "is_character_match needle a k = Some n" for needle a k n
    using that by (auto simp: is_character_match_def split: if_splits)
  have ws: "k \<le> n" if "is_whitespace a k = Some n" for a k n
    using that by (auto simp: is_whitespace_def split: if_splits)
  have fl: "k \<le> n" if "is_float_number a k = Some (n, f)" for a k n f
    using that by (auto simp: is_float_number_def split: if_splits)
  have cp: "k \<le> n" if "is_coordinate_pair a k = Some (n, v)" for a k n v
    using that
    by (auto simp: is_coordinate_pair_def add_offsets_def split: if_splits Option.bind_splits)
  have m: "1 \<le> n" if "is_m_instruction c 0 = Some (n, v)" for n v
    using that
    by (auto simp: is_m_instruction_def add_offsets_def split: if_splits Option.bind_splits
        dest!: cm ws cp)
  have l: "1 \<le> n" if "is_l_instruction c 0 = Some (n, v)" for n v
    using that
    by (auto simp: is_l_instruction_def add_offsets_def split: if_splits Option.bind_splits
        dest!: cm ws cp)
  have h: "1 \<le> n" if "is_h_instruction c 0 = Some (n, v)" for n v
    using that
    by (auto simp: is_h_instruction_def add_offsets_def split: if_splits Option.bind_splits
        dest!: cm ws fl)
  have v: "1 \<le> n" if "is_v_instruction c 0 = Some (n, v)" for n v
    using that
    by (auto simp: is_v_instruction_def add_offsets_def split: if_splits Option.bind_splits
        dest!: cm ws fl)
  have cu: "1 \<le> n" if "is_c_instruction c 0 = Some (n, v)" for n v
    using that
    by (auto simp: is_c_instruction_def add_offsets_def split: if_splits Option.bind_splits
        dest!: cm ws cp)
  have q: "1 \<le> n" if "is_q_instruction c 0 = Some (n, v)" for n v
    using that
    by (auto simp: is_q_instruction_def add_offsets_def split: if_splits Option.bind_splits
        dest!: cm ws cp)
  have "svg_step st c = Inr (st', offset)"
    using step x2 by simp
  then have "1 \<le> offset"
    unfolding svg_step_def
    by (auto split: option.splits sum.splits prod.splits dest: m l h v cu q cm)
  with c show "((st', drop offset c), (st, c)) \<in> measure (\<lambda>(st, c). length c)"
    by (cases c) auto
qed

definition le_path_add_from_simplified_svg ::
  "le_path_o \<Rightarrow> string \<Rightarrow> fault + (le_path_o \<times> string list)" where
  "le_path_add_from_simplified_svg self svg = svg_loop (self, []) svg"

section \<open>Notions of the specification\<close>

text \<open>
  The length of a chain of straight segments through the given points: the sum of the
  Euclidean lengths of its consecutive segments, as the specification words it.
\<close>

fun polyline_length :: "Vertex list \<Rightarrow> real" where
  "polyline_length (a # b # vs) = distance a b + polyline_length (b # vs)"
| "polyline_length _ = 0"

text \<open>
  The point at distance \<open>r\<close> along the segment from \<open>a\<close> toward \<open>b\<close>, as the
  specification words it; the source computes it as \<open>start_point + direction * r\<close>.
\<close>

definition point_along :: "Vertex \<Rightarrow> Vertex \<Rightarrow> real \<Rightarrow> Vertex" where
  "point_along a b r = vadd a (smul (r / distance a b) (vsub b a))"

text \<open>
  The curve of the specification, "standard Bernstein-basis formulas": for the control
  points \<open>ps\<close>, numbered from 0 to \<open>n\<close>, the point at \<open>t\<close> is the sum over \<open>k\<close> of the
  \<open>k\<close>-th Bernstein polynomial of degree \<open>n\<close> at \<open>t\<close>, which is
  \<open>(n choose k) * t ^ k * (1 - t) ^ (n - k)\<close>, times the \<open>k\<close>-th point. It is written from
  the mathematical definition, not from the source.
\<close>

definition bernstein :: "nat \<Rightarrow> nat \<Rightarrow> real \<Rightarrow> real" where
  "bernstein n k t = real (n choose k) * t ^ k * (1 - t) ^ (n - k)"

definition bezier_point :: "Vertex list \<Rightarrow> real \<Rightarrow> Vertex" where
  "bezier_point ps t =
     (\<Sum>k<length ps. bernstein (length ps - 1) k t * fst (ps ! k),
      \<Sum>k<length ps. bernstein (length ps - 1) k t * snd (ps ! k))"

text \<open>
  The paths a caller can hold: \<^verbatim>\<open>le_path_o\<close> is opaque, so a path is what
  \<^verbatim>\<open>create\<close> returns, changed by the functions that \<^verbatim>\<open>register_le_path_api\<close> puts
  into the interface, each having returned.
\<close>

inductive built :: "le_path_o \<Rightarrow> bool" where
  built_create: "built le_path_create"
| built_move_to: "built self \<Longrightarrow> built (le_path_move_to self p0)"
| built_line_to: "built self \<Longrightarrow> le_path_line_to self p0 = Inr self' \<Longrightarrow> built self'"
| built_quad_bezier_to:
    "built self \<Longrightarrow> le_path_quad_bezier_to self p0 c = Inr self' \<Longrightarrow> built self'"
| built_cubic_bezier_to:
    "built self \<Longrightarrow> le_path_cubic_bezier_to self p0 c c' = Inr self' \<Longrightarrow> built self'"
| built_close: "built self \<Longrightarrow> le_path_close_path self = Inr self' \<Longrightarrow> built self'"
| built_add_from_simplified_svg:
    "built self \<Longrightarrow> le_path_add_from_simplified_svg self svg = Inr (self', err) \<Longrightarrow>
     built self'"
| built_trace: "built self \<Longrightarrow> le_path_trace_path self = Inr self' \<Longrightarrow> built self'"
| built_resample: "built self \<Longrightarrow> le_path_resample self interval = Inr self' \<Longrightarrow> built self'"
| built_clear: "built self \<Longrightarrow> built (le_path_clear self)"

text \<open>
  What these paths have in common: every sub-path starts with its MoveTo, the only one
  it has (\<^verbatim>\<open>le_path_move_to\<close> opens a new sub-path each time), and goes on with
  LineTo, curve and ClosePath commands; no command has the type \<^verbatim>\<open>eUnknown\<close>.
\<close>

definition drawing_command :: "PathCommand \<Rightarrow> bool" where
  "drawing_command c =
     (cmd_type c = eLineTo \<or> cmd_type c = eQuadBezierTo \<or> cmd_type c = eCubicBezierTo \<or>
      cmd_type c = eClosePath)"

definition subpath_ok :: "SubPath \<Rightarrow> bool" where
  "subpath_ok s =
     (case commands s of
        [] \<Rightarrow> False
      | c # cs \<Rightarrow> cmd_type c = eMoveTo \<and> list_all drawing_command cs)"

definition path_ok :: "le_path_o \<Rightarrow> bool" where
  "path_ok self = list_all subpath_ok (subpaths self)"

section \<open>Notions of the proofs\<close>

text \<open>
  While a sub-path is traced: the polyline is not empty, has as many distances as
  vertices, the distances are sorted from 0, and none exceeds the running total.
\<close>

definition trace_inv :: "Polyline \<Rightarrow> bool" where
  "trace_inv pl =
     (vertices pl \<noteq> [] \<and> length (vertices pl) = length (distances pl) \<and>
      sorted (distances pl) \<and> hd (distances pl) = 0 \<and>
      (\<forall>d\<in>set (distances pl). d \<le> total_distance pl))"

text \<open>The length of a vector, for the direction of a segment.\<close>

definition vlength :: "Vertex \<Rightarrow> real" where
  "vlength u = sqrt (fst u * fst u + snd u * snd u)"

section \<open>Example paths\<close>

text \<open>The path of \<^verbatim>\<open>M 0,0 L 10,0 Z\<close>.\<close>

definition closed_example :: le_path_o where
  "closed_example =
     \<lparr>subpaths = [\<lparr>commands =
        [\<lparr>cmd_type = eMoveTo, cmd_p = (0, 0), cmd_c1 = (0, 0), cmd_c2 = (0, 0)\<rparr>,
         \<lparr>cmd_type = eLineTo, cmd_p = (10, 0), cmd_c1 = (0, 0), cmd_c2 = (0, 0)\<rparr>,
         \<lparr>cmd_type = eClosePath, cmd_p = (0, 0), cmd_c1 = (0, 0), cmd_c2 = (0, 0)\<rparr>]\<rparr>],
      polylines = [], sample_interval = 0\<rparr>"

text \<open>From (0,0) to (3,4) to (3,0): segments of lengths 5 and 4.\<close>

definition line_example :: "PathCommand list" where
  "line_example =
     [\<lparr>cmd_type = eMoveTo, cmd_p = (0, 0), cmd_c1 = (0, 0), cmd_c2 = (0, 0)\<rparr>,
      \<lparr>cmd_type = eLineTo, cmd_p = (3, 4), cmd_c1 = (0, 0), cmd_c2 = (0, 0)\<rparr>,
      \<lparr>cmd_type = eLineTo, cmd_p = (3, 0), cmd_c1 = (0, 0), cmd_c2 = (0, 0)\<rparr>]"

text \<open>A polyline holding the start point of a curve, traced and resampled.\<close>

definition start_polyline :: Polyline where
  "start_polyline = \<lparr>vertices = [(0, 0)], distances = [0], total_distance = 0\<rparr>"

definition origin_polyline :: Polyline where
  "origin_polyline = \<lparr>vertices = [(0, 0)], distances = [], total_distance = 0\<rparr>"

text \<open>The path of \<^verbatim>\<open>M 0,0 L 10,0 Q 10,10 0,10 Z\<close>.\<close>

definition curve_example :: le_path_o where
  "curve_example =
     \<lparr>subpaths = [\<lparr>commands =
        [\<lparr>cmd_type = eMoveTo, cmd_p = (0, 0), cmd_c1 = (0, 0), cmd_c2 = (0, 0)\<rparr>,
         \<lparr>cmd_type = eLineTo, cmd_p = (10, 0), cmd_c1 = (0, 0), cmd_c2 = (0, 0)\<rparr>,
         \<lparr>cmd_type = eQuadBezierTo, cmd_p = (0, 10), cmd_c1 = (10, 10), cmd_c2 = (0, 0)\<rparr>,
         \<lparr>cmd_type = eClosePath, cmd_p = (0, 0), cmd_c1 = (0, 0), cmd_c2 = (0, 0)\<rparr>]\<rparr>],
      polylines = [], sample_interval = 0\<rparr>"

text \<open>The 100-unit segment of the specification.\<close>

definition segment_100 :: "PathCommand list" where
  "segment_100 =
     [\<lparr>cmd_type = eMoveTo, cmd_p = (0, 0), cmd_c1 = (0, 0), cmd_c2 = (0, 0)\<rparr>,
      \<lparr>cmd_type = eLineTo, cmd_p = (100, 0), cmd_c1 = (0, 0), cmd_c2 = (0, 0)\<rparr>]"

text \<open>
  The path of \<^verbatim>\<open>move_to\<close> (0,0), \<^verbatim>\<open>line_to\<close> (3000000000,0): a segment of
  3000000000 units.
\<close>

definition long_path :: le_path_o where
  "long_path =
     \<lparr>subpaths = [\<lparr>commands =
        [\<lparr>cmd_type = eMoveTo, cmd_p = (0, 0), cmd_c1 = (0, 0), cmd_c2 = (0, 0)\<rparr>,
         \<lparr>cmd_type = eLineTo, cmd_p = (3000000000, 0), cmd_c1 = (0, 0), cmd_c2 = (0, 0)\<rparr>]\<rparr>],
      polylines = [], sample_interval = 0\<rparr>"

text \<open>
  A triangle with the sides 25, 25 and 30, closed; the polyline it is resampled into at
  interval 25; a short line from its start; and the path of
  \<^verbatim>\<open>M 0,0 L 25,0 L 18,24 Z L 100,0 L 200,0\<close>, which goes on after the ClosePath.
\<close>

definition triangle :: "PathCommand list" where
  "triangle =
     [\<lparr>cmd_type = eMoveTo, cmd_p = (0, 0), cmd_c1 = (0, 0), cmd_c2 = (0, 0)\<rparr>,
      \<lparr>cmd_type = eLineTo, cmd_p = (25, 0), cmd_c1 = (0, 0), cmd_c2 = (0, 0)\<rparr>,
      \<lparr>cmd_type = eLineTo, cmd_p = (18, 24), cmd_c1 = (0, 0), cmd_c2 = (0, 0)\<rparr>,
      \<lparr>cmd_type = eClosePath, cmd_p = (0, 0), cmd_c1 = (0, 0), cmd_c2 = (0, 0)\<rparr>]"

definition triangle_polyline :: Polyline where
  "triangle_polyline =
     \<lparr>vertices = [(0, 0), (25, 0), (18, 24), (3, 4), (0, 0)], distances = [],
      total_distance = 0\<rparr>"

definition short_line :: PathCommand where
  "short_line = \<lparr>cmd_type = eLineTo, cmd_p = (3, 0), cmd_c1 = (0, 0), cmd_c2 = (0, 0)\<rparr>"

definition closed_then_lines :: le_path_o where
  "closed_then_lines =
     \<lparr>subpaths = [\<lparr>commands = triangle @
        [\<lparr>cmd_type = eLineTo, cmd_p = (100, 0), cmd_c1 = (0, 0), cmd_c2 = (0, 0)\<rparr>,
         \<lparr>cmd_type = eLineTo, cmd_p = (200, 0), cmd_c1 = (0, 0), cmd_c2 = (0, 0)\<rparr>]\<rparr>],
      polylines = [], sample_interval = 0\<rparr>"

text \<open>The path of \<^verbatim>\<open>M 0,0 L 10,0 L 10,10 Z\<close>.\<close>

definition corner_path :: le_path_o where
  "corner_path =
     \<lparr>subpaths = [\<lparr>commands =
        [\<lparr>cmd_type = eMoveTo, cmd_p = (0, 0), cmd_c1 = (0, 0), cmd_c2 = (0, 0)\<rparr>,
         \<lparr>cmd_type = eLineTo, cmd_p = (10, 0), cmd_c1 = (0, 0), cmd_c2 = (0, 0)\<rparr>,
         \<lparr>cmd_type = eLineTo, cmd_p = (10, 10), cmd_c1 = (0, 0), cmd_c2 = (0, 0)\<rparr>,
         \<lparr>cmd_type = eClosePath, cmd_p = (0, 0), cmd_c1 = (0, 0), cmd_c2 = (0, 0)\<rparr>]\<rparr>],
      polylines = [], sample_interval = 0\<rparr>"

section \<open>Clearing\<close>

text \<open>
  C9. After \<^verbatim>\<open>clear()\<close> the sub-path list and the polyline list are empty, so
  \<^verbatim>\<open>get_num_polylines()\<close> returns 0, and the recorded \<^verbatim>\<open>sample_interval\<close> is the
  one the path had before.
\<close>

theorem le_path_clear_frame:
  "subpaths (le_path_clear self) = [] \<and>
   polylines (le_path_clear self) = [] \<and>
   le_path_get_num_polylines (le_path_clear self) = 0 \<and>
   sample_interval (le_path_clear self) = sample_interval self"
  by (simp add: le_path_clear_def le_path_get_num_polylines_def)

section \<open>Facts about \<open>distance\<close>\<close>

lemma distance_nonneg: "0 \<le> distance a b"
  by (simp add: distance_def)

lemma distance_commute: "distance a b = distance b a"
proof -
  have "(fst b - fst a) * (fst b - fst a) = (fst a - fst b) * (fst a - fst b)"
    and "(snd b - snd a) * (snd b - snd a) = (snd a - snd b) * (snd a - snd b)"
    by (simp_all add: algebra_simps)
  then show ?thesis
    by (simp add: distance_def)
qed

lemma distance_same_y: "distance (a, h) (b, h) = \<bar>b - a\<bar>"
  by (simp add: distance_def)

lemma distance_same_x: "distance (h, a) (h, b) = \<bar>b - a\<bar>"
  by (simp add: distance_def)

lemma sqrt_of_square: "0 \<le> r \<Longrightarrow> x = r * r \<Longrightarrow> sqrt x = r"
  by simp

section \<open>Relative line commands\<close>

text \<open>
  C7. On a path whose last sub-path is not empty and whose most recent command is
  ClosePath, \<^verbatim>\<open>le_path_line_horiz_to\<close> and \<^verbatim>\<open>le_path_line_vert_to\<close> return the path as
  it was, having printed the warning; and building goes on from there: a following
  \<^verbatim>\<open>le_path_line_to\<close> appends its command.
\<close>

theorem relative_line_after_close_is_noop:
  assumes "subpaths self \<noteq> []"
    and "commands (last (subpaths self)) \<noteq> []"
    and "cmd_type (last (commands (last (subpaths self)))) = eClosePath"
  shows "le_path_line_horiz_to self px = Inr (self, [relative_warning]) \<and>
         le_path_line_vert_to self py = Inr (self, [relative_warning]) \<and>
         le_path_line_to self q =
           Inr (push_command self
                  \<lparr>cmd_type = eLineTo, cmd_p = q, cmd_c1 = zero_vertex, cmd_c2 = zero_vertex\<rparr>)"
  using assms
  by (simp add: le_path_line_horiz_to_def le_path_line_vert_to_def le_path_get_previous_p_def
      le_path_line_to_def)

text \<open>
  The instance: the path of \<^verbatim>\<open>M 0,0 L 10,0 Z\<close>, and the same through the parser's
  \<^verbatim>\<open>H\<close>.
\<close>

lemma closed_example_parsed:
  "le_path_add_from_simplified_svg le_path_create ''M 0,0 L 10,0 Z'' = Inr (closed_example, [])"
  by code_simp

theorem relative_line_after_close_is_noop_witness:
  "le_path_add_from_simplified_svg le_path_create ''M 0,0 L 10,0 Z'' = Inr (closed_example, []) \<and>
   le_path_line_horiz_to closed_example 5 = Inr (closed_example, [relative_warning]) \<and>
   le_path_line_vert_to closed_example 7 = Inr (closed_example, [relative_warning]) \<and>
   le_path_add_from_simplified_svg le_path_create ''M 0,0 L 10,0 Z H 5'' =
     Inr (closed_example, [relative_warning])"
proof -
  have a: "subpaths closed_example \<noteq> []"
    and b: "commands (last (subpaths closed_example)) \<noteq> []"
    and c: "cmd_type (last (commands (last (subpaths closed_example)))) = eClosePath"
    by (simp_all add: closed_example_def)
  have "le_path_add_from_simplified_svg le_path_create ''M 0,0 L 10,0 Z H 5'' =
     Inr (closed_example, [relative_warning])"
    by code_simp
  with relative_line_after_close_is_noop [OF a b c, of 5 7] closed_example_parsed
  show ?thesis by simp
qed

text \<open>
  The statement of C8 as written, that the first call on a fresh path returns the path
  unchanged with a diagnostic, fails: the call stops at the assert
  \<^verbatim>\<open>!self->subpaths.empty()\<close>.
\<close>

theorem horiz_on_fresh_path_counterexample:
  "le_path_line_horiz_to le_path_create 5 = Inl AssertionFailed \<and>
   le_path_line_horiz_to le_path_create 5 \<noteq> Inr (le_path_create, [relative_warning])"
  by (simp add: le_path_line_horiz_to_def le_path_create_def)

text \<open>
  C8, amended. \<^verbatim>\<open>le_path_line_horiz_to\<close> as the first operation on a fresh path fails
  the assertion that a sub-path must exist: it does not return, appends nothing and
  prints no diagnostic. The parser's \<^verbatim>\<open>H\<close>, the only caller, stops the same way.
\<close>

theorem horiz_on_fresh_path_asserts:
  "le_path_line_horiz_to le_path_create px = Inl AssertionFailed \<and>
   le_path_add_from_simplified_svg le_path_create ''H 5'' = Inl AssertionFailed"
proof -
  have "le_path_line_horiz_to le_path_create px = Inl AssertionFailed"
    by (simp add: le_path_line_horiz_to_def le_path_create_def)
  moreover have "le_path_add_from_simplified_svg le_path_create ''H 5'' = Inl AssertionFailed"
    by code_simp
  ultimately show ?thesis by simp
qed

section \<open>Tracing straight sub-paths\<close>

lemma trace_commands_lines:
  assumes "vertices pl \<noteq> []" and "\<forall>c\<in>set cs. cmd_type c = eLineTo"
  shows "\<exists>pl'. trace_commands pl cs = Inr pl' \<and>
           vertices pl' = vertices pl @ map cmd_p cs \<and>
           length (distances pl') = length (distances pl) + length cs \<and>
           total_distance pl' =
             total_distance pl + polyline_length (last (vertices pl) # map cmd_p cs) \<and>
           (distances pl \<noteq> [] \<longrightarrow> hd (distances pl') = hd (distances pl)) \<and>
           (distances pl \<noteq> [] \<and> last (distances pl) = total_distance pl \<longrightarrow>
              distances pl' \<noteq> [] \<and> last (distances pl') = total_distance pl')"
  using assms
proof (induction cs arbitrary: pl)
  case Nil
  then show ?case by simp
next
  case (Cons c cs)
  let ?pl1 = "trace_append pl (cmd_p c) (last (vertices pl))"
  have step: "trace_command pl c = Inr ?pl1"
    using Cons.prems by (simp add: trace_command_def trace_line_to_def)
  have v1: "vertices ?pl1 = vertices pl @ [cmd_p c]"
    and d1: "distances ?pl1 = distances pl @ [total_distance ?pl1]"
    and t1: "total_distance ?pl1 = total_distance pl + distance (cmd_p c) (last (vertices pl))"
    by (simp_all add: trace_append_def Let_def)
  have "vertices ?pl1 \<noteq> []" and "\<forall>c\<in>set cs. cmd_type c = eLineTo"
    using Cons.prems v1 by simp_all
  from Cons.IH [OF this] obtain pl' where
    r: "trace_commands ?pl1 cs = Inr pl'"
    and v: "vertices pl' = vertices ?pl1 @ map cmd_p cs"
    and l: "length (distances pl') = length (distances ?pl1) + length cs"
    and t: "total_distance pl' =
              total_distance ?pl1 + polyline_length (last (vertices ?pl1) # map cmd_p cs)"
    and h: "distances ?pl1 \<noteq> [] \<longrightarrow> hd (distances pl') = hd (distances ?pl1)"
    and e: "distances ?pl1 \<noteq> [] \<and> last (distances ?pl1) = total_distance ?pl1 \<longrightarrow>
              distances pl' \<noteq> [] \<and> last (distances pl') = total_distance pl'"
    by blast
  have "trace_commands pl (c # cs) = Inr pl'"
    using step r by simp
  moreover have "vertices pl' = vertices pl @ map cmd_p (c # cs)"
    using v v1 by simp
  moreover have "length (distances pl') = length (distances pl) + length (c # cs)"
    using l d1 by simp
  moreover have "total_distance pl' =
      total_distance pl + polyline_length (last (vertices pl) # map cmd_p (c # cs))"
    using t t1 v1 by (simp add: distance_commute [of "cmd_p c"])
  moreover have "distances pl \<noteq> [] \<longrightarrow> hd (distances pl') = hd (distances pl)"
    using h d1 by simp
  moreover have "distances pl' \<noteq> [] \<and> last (distances pl') = total_distance pl'"
    using e d1 by simp
  ultimately show ?case by blast
qed

text \<open>
  C3. A sub-path that is one MoveTo followed by LineTo commands only is traced into a
  polyline with one vertex per command, the end points in order; the first cumulative
  distance is 0 and the last one is the sum of the lengths of the consecutive segments.
\<close>

theorem trace_lines_count_and_length:
  assumes "cmd_type c0 = eMoveTo" and "\<forall>c\<in>set cs. cmd_type c = eLineTo"
  shows "\<exists>pl. trace_subpath \<lparr>commands = c0 # cs\<rparr> = Inr pl \<and>
           length (vertices pl) = length (c0 # cs) \<and>
           vertices pl = map cmd_p (c0 # cs) \<and>
           length (distances pl) = length (vertices pl) \<and>
           hd (distances pl) = 0 \<and>
           last (distances pl) = polyline_length (map cmd_p (c0 # cs))"
proof -
  let ?pl0 = "trace_move_to default_polyline (cmd_p c0)"
  have step: "trace_command default_polyline c0 = Inr ?pl0"
    using assms(1) by (simp add: trace_command_def)
  have v0: "vertices ?pl0 = [cmd_p c0]" and d0: "distances ?pl0 = [0]"
    and t0: "total_distance ?pl0 = 0"
    by (simp_all add: trace_move_to_def default_polyline_def)
  have "vertices ?pl0 \<noteq> []"
    using v0 by simp
  from trace_commands_lines [OF this assms(2)] obtain pl where
    r: "trace_commands ?pl0 cs = Inr pl"
    and v: "vertices pl = vertices ?pl0 @ map cmd_p cs"
    and l: "length (distances pl) = length (distances ?pl0) + length cs"
    and t: "total_distance pl =
              total_distance ?pl0 + polyline_length (last (vertices ?pl0) # map cmd_p cs)"
    and h: "distances ?pl0 \<noteq> [] \<longrightarrow> hd (distances pl) = hd (distances ?pl0)"
    and e: "distances ?pl0 \<noteq> [] \<and> last (distances ?pl0) = total_distance ?pl0 \<longrightarrow>
              distances pl \<noteq> [] \<and> last (distances pl) = total_distance pl"
    by blast
  have len: "length (vertices pl) = length (distances pl)"
    using v l v0 d0 by simp
  have "trace_subpath \<lparr>commands = c0 # cs\<rparr> = Inr pl"
    using step r len by (simp add: trace_subpath_def)
  moreover have "vertices pl = map cmd_p (c0 # cs)"
    using v v0 by simp
  moreover have "hd (distances pl) = 0"
    using h d0 by simp
  moreover have "last (distances pl) = polyline_length (map cmd_p (c0 # cs))"
    using e t d0 t0 v0 by simp
  ultimately show ?thesis
    using len by simp
qed

text \<open>The instance: from (0,0) to (3,4) to (3,0), of lengths 5 and 4.\<close>

lemma distance_3_4: "distance (0, 0) (3, 4) = 5"
proof -
  have "sqrt 25 = 5"
    by (rule sqrt_of_square) simp_all
  then show ?thesis
    by (simp add: distance_def)
qed

theorem trace_lines_count_and_length_witness:
  "\<exists>pl. trace_subpath \<lparr>commands = line_example\<rparr> = Inr pl \<and>
         length (vertices pl) = 3 \<and>
         vertices pl = [(0, 0), (3, 4), (3, 0)] \<and>
         length (distances pl) = length (vertices pl) \<and>
         hd (distances pl) = 0 \<and>
         last (distances pl) = 9"
  using trace_lines_count_and_length
    [of "\<lparr>cmd_type = eMoveTo, cmd_p = (0, 0), cmd_c1 = (0, 0), cmd_c2 = (0, 0)\<rparr>"
        "[\<lparr>cmd_type = eLineTo, cmd_p = (3, 4), cmd_c1 = (0, 0), cmd_c2 = (0, 0)\<rparr>,
          \<lparr>cmd_type = eLineTo, cmd_p = (3, 0), cmd_c1 = (0, 0), cmd_c2 = (0, 0)\<rparr>]"]
  by (simp add: line_example_def distance_3_4 distance_same_x numeral_3_eq_3)

section \<open>Tracing curves\<close>

lemma trace_bezier_loop_vertices:
  "vertices (fst (trace_bezier_loop curve delta_t is (pl, q))) =
     vertices pl @ map (\<lambda>i. curve (real i * delta_t)) is"
proof (induction "is" arbitrary: pl q)
  case Nil
  then show ?case by simp
next
  case (Cons i "is")
  show ?case
    by (simp add: Let_def Cons.IH trace_append_def)
qed

text \<open>The Bernstein sums of degree 2 and 3, written out.\<close>

lemma bezier_point_quadratic:
  "bezier_point [p0, c, p1] t =
     ((1 - t)\<^sup>2 * fst p0 + 2 * t * (1 - t) * fst c + t\<^sup>2 * fst p1,
      (1 - t)\<^sup>2 * snd p0 + 2 * t * (1 - t) * snd c + t\<^sup>2 * snd p1)"
  by (simp add: bezier_point_def bernstein_def lessThan_Suc numeral_2_eq_2 power2_eq_square)

lemma bezier_point_cubic:
  "bezier_point [p0, c, c', p1] t =
     ((1 - t) ^ 3 * fst p0 + 3 * t * (1 - t)\<^sup>2 * fst c + 3 * t\<^sup>2 * (1 - t) * fst c' +
        t ^ 3 * fst p1,
      (1 - t) ^ 3 * snd p0 + 3 * t * (1 - t)\<^sup>2 * snd c + 3 * t\<^sup>2 * (1 - t) * snd c' +
        t ^ 3 * snd p1)"
  by (simp add: bezier_point_def bernstein_def lessThan_Suc numeral_3_eq_3 numeral_2_eq_2
      power2_eq_square power3_eq_cube binomial_Suc_Suc)

text \<open>The points the two loops compute are the points of that curve.\<close>

lemma quad_bezier_point_bernstein:
  "quad_bezier_point p0 c p1 t = bezier_point [p0, c, p1] t"
  by (simp add: bezier_point_quadratic quad_bezier_point_def vadd_def smul_def Let_def
      power2_eq_square algebra_simps)

lemma cubic_bezier_point_bernstein:
  "cubic_bezier_point p0 c c' p1 t = bezier_point [p0, c, c', p1] t"
  by (simp add: bezier_point_cubic cubic_bezier_point_def vadd_def smul_def Let_def
      power2_eq_square power3_eq_cube algebra_simps)

lemma bezier_point_quadratic_end: "bezier_point [p0, c, p1] 1 = p1"
  by (simp add: bezier_point_quadratic)

lemma bezier_point_cubic_end: "bezier_point [p0, c, c', p1] 1 = p1"
  by (simp add: bezier_point_cubic)

lemma curve_points_last:
  assumes "0 < R" and "curve 1 = p1"
  shows "last (vs @ map (\<lambda>i. curve (real i / real R)) [1..<Suc R]) = p1"
proof -
  have "[1..<Suc R] = [1..<R] @ [R]"
    using assms(1) by (simp add: Suc_leI)
  then show ?thesis
    using assms by simp
qed

text \<open>
  C4. Traced with a resolution \<open>R > 1\<close> onto a polyline that is not empty, a quadratic
  and a cubic curve each append exactly \<open>R\<close> vertices: the points of the Bernstein-basis
  curve through the last vertex, the control points and the end point, at \<open>t = i / R\<close>
  for \<open>i\<close> from 1 to \<open>R\<close> (the start point, \<open>t = 0\<close>, is not among them); the last one is
  the end point of the command. In exact arithmetic the last point is equal to the end
  point, which is within every tolerance.
\<close>

theorem trace_bezier_appends_resolution_points:
  assumes "1 < R" and "vertices pl \<noteq> []"
  shows "(\<exists>pl'. trace_quad_bezier_to pl p1 c R = Inr pl' \<and>
            vertices pl' = vertices pl @
              map (\<lambda>i. bezier_point [last (vertices pl), c, p1] (real i / real R))
                [1..<Suc R] \<and>
            length (vertices pl') = length (vertices pl) + R \<and>
            last (vertices pl') = p1) \<and>
         (\<exists>pl'. trace_cubic_bezier_to pl p1 c c' R = Inr pl' \<and>
            vertices pl' = vertices pl @
              map (\<lambda>i. bezier_point [last (vertices pl), c, c', p1] (real i / real R))
                [1..<Suc R] \<and>
            length (vertices pl') = length (vertices pl) + R \<and>
            last (vertices pl') = p1)"
proof -
  let ?p0 = "last (vertices pl)"
  let ?q = "fst (trace_bezier_loop (quad_bezier_point ?p0 c p1) (1 / real R)
                   [1..<Suc R] (pl, ?p0))"
  let ?k = "fst (trace_bezier_loop (cubic_bezier_point ?p0 c c' p1) (1 / real R)
                   [1..<Suc R] (pl, ?p0))"
  have R: "R \<noteq> 0" "R \<noteq> 1" "0 < R"
    using assms(1) by simp_all
  have q: "trace_quad_bezier_to pl p1 c R = Inr ?q"
    using R assms(2) by (simp add: trace_quad_bezier_to_def Let_def)
  have "vertices ?q = vertices pl @
      map (\<lambda>i. quad_bezier_point ?p0 c p1 (real i * (1 / real R))) [1..<Suc R]"
    by (rule trace_bezier_loop_vertices)
  then have qv: "vertices ?q = vertices pl @
      map (\<lambda>i. bezier_point [?p0, c, p1] (real i / real R)) [1..<Suc R]"
    by (simp add: quad_bezier_point_bernstein)
  have ql: "last (vertices ?q) = p1"
    unfolding qv using R(3) bezier_point_quadratic_end by (rule curve_points_last)
  have k: "trace_cubic_bezier_to pl p1 c c' R = Inr ?k"
    using R assms(2) by (simp add: trace_cubic_bezier_to_def Let_def)
  have "vertices ?k = vertices pl @
      map (\<lambda>i. cubic_bezier_point ?p0 c c' p1 (real i * (1 / real R))) [1..<Suc R]"
    by (rule trace_bezier_loop_vertices)
  then have kv: "vertices ?k = vertices pl @
      map (\<lambda>i. bezier_point [?p0, c, c', p1] (real i / real R)) [1..<Suc R]"
    by (simp add: cubic_bezier_point_bernstein)
  have kl: "last (vertices ?k) = p1"
    unfolding kv using R(3) bezier_point_cubic_end by (rule curve_points_last)
  have "\<exists>pl'. trace_quad_bezier_to pl p1 c R = Inr pl' \<and>
            vertices pl' = vertices pl @
              map (\<lambda>i. bezier_point [?p0, c, p1] (real i / real R)) [1..<Suc R] \<and>
            length (vertices pl') = length (vertices pl) + R \<and>
            last (vertices pl') = p1"
    using q qv ql by simp
  moreover have "\<exists>pl'. trace_cubic_bezier_to pl p1 c c' R = Inr pl' \<and>
            vertices pl' = vertices pl @
              map (\<lambda>i. bezier_point [?p0, c, c', p1] (real i / real R)) [1..<Suc R] \<and>
            length (vertices pl') = length (vertices pl) + R \<and>
            last (vertices pl') = p1"
    using k kv kl by simp
  ultimately show ?thesis by blast
qed

text \<open>
  The instance, at resolution 2 and with the control points off the chord: the quadratic
  curve from (0,0) to (2,0) with control point (0,2) passes (1/2, 1), the cubic curve from
  (0,0) to (8,0) with control points (0,8) and (8,8) passes (4,6).
\<close>

theorem trace_bezier_appends_resolution_points_witness:
  "(\<exists>pl'. trace_quad_bezier_to start_polyline (2, 0) (0, 2) 2 = Inr pl' \<and>
      vertices pl' = [(0, 0), (1 / 2, 1), (2, 0)] \<and>
      length (vertices pl') = 3 \<and>
      last (vertices pl') = (2, 0)) \<and>
   (\<exists>pl'. trace_cubic_bezier_to start_polyline (8, 0) (0, 8) (8, 8) 2 = Inr pl' \<and>
      vertices pl' = [(0, 0), (4, 6), (8, 0)] \<and>
      length (vertices pl') = 3 \<and>
      last (vertices pl') = (8, 0))"
proof -
  have a: "1 < (2::nat)" by simp
  have b: "vertices start_polyline \<noteq> []" by (simp add: start_polyline_def)
  have u: "[Suc 0..<3] = [Suc 0, 2]" by (simp add: upt_rec)
  have "\<exists>pl'. trace_quad_bezier_to start_polyline (2, 0) (0, 2) 2 = Inr pl' \<and>
      vertices pl' = [(0, 0), (1 / 2, 1), (2, 0)] \<and>
      length (vertices pl') = 3 \<and>
      last (vertices pl') = (2, 0)"
    using trace_bezier_appends_resolution_points [OF a b, of "(2, 0)" "(0, 2)"]
    by (simp add: u start_polyline_def bezier_point_quadratic numeral_3_eq_3
        power2_eq_square)
  moreover have "\<exists>pl'. trace_cubic_bezier_to start_polyline (8, 0) (0, 8) (8, 8) 2 = Inr pl' \<and>
      vertices pl' = [(0, 0), (4, 6), (8, 0)] \<and>
      length (vertices pl') = 3 \<and>
      last (vertices pl') = (8, 0)"
    using trace_bezier_appends_resolution_points [OF a b, of "(8, 0)" "(0, 8)" "(8, 8)"]
    by (simp add: u start_polyline_def bezier_point_cubic numeral_3_eq_3
        power2_eq_square power3_eq_cube)
  ultimately show ?thesis by blast
qed

section \<open>Paths the interface builds\<close>

lemma subpath_ok_append:
  assumes "subpath_ok s" and "drawing_command c"
  shows "subpath_ok (s\<lparr>commands := commands s @ [c]\<rparr>)"
  using assms by (auto simp: subpath_ok_def split: list.splits)

lemma path_ok_push_command:
  assumes "path_ok self" and "subpaths self \<noteq> []" and "drawing_command c"
  shows "path_ok (push_command self c)"
proof -
  have "list_all subpath_ok (butlast (subpaths self) @ [last (subpaths self)])"
    using assms(1,2) by (simp add: path_ok_def)
  then have "list_all subpath_ok (butlast (subpaths self))"
    and "subpath_ok (last (subpaths self))"
    by simp_all
  then show ?thesis
    using assms(3) by (simp add: path_ok_def push_command_def subpath_ok_append)
qed

lemma path_ok_move_to: "path_ok self \<Longrightarrow> path_ok (le_path_move_to self p0)"
  by (simp add: path_ok_def le_path_move_to_def subpath_ok_def)

lemma path_ok_line_to: "path_ok self \<Longrightarrow> le_path_line_to self p0 = Inr self' \<Longrightarrow> path_ok self'"
  by (auto simp: le_path_line_to_def drawing_command_def split: if_splits
      intro!: path_ok_push_command)

lemma path_ok_quad_bezier_to:
  "path_ok self \<Longrightarrow> le_path_quad_bezier_to self p0 c = Inr self' \<Longrightarrow> path_ok self'"
  by (auto simp: le_path_quad_bezier_to_def drawing_command_def split: if_splits
      intro!: path_ok_push_command)

lemma path_ok_cubic_bezier_to:
  "path_ok self \<Longrightarrow> le_path_cubic_bezier_to self p0 c c' = Inr self' \<Longrightarrow> path_ok self'"
  by (auto simp: le_path_cubic_bezier_to_def drawing_command_def split: if_splits
      intro!: path_ok_push_command)

lemma path_ok_close_path:
  "path_ok self \<Longrightarrow> le_path_close_path self = Inr self' \<Longrightarrow> path_ok self'"
  by (auto simp: le_path_close_path_def drawing_command_def split: if_splits
      intro!: path_ok_push_command)

lemma path_ok_line_horiz_to:
  "path_ok self \<Longrightarrow> le_path_line_horiz_to self px = Inr (self', err) \<Longrightarrow> path_ok self'"
  by (auto simp: le_path_line_horiz_to_def
      split: if_splits sum.splits prod.splits option.splits dest: path_ok_line_to)

lemma path_ok_line_vert_to:
  "path_ok self \<Longrightarrow> le_path_line_vert_to self py = Inr (self', err) \<Longrightarrow> path_ok self'"
  by (auto simp: le_path_line_vert_to_def
      split: if_splits sum.splits prod.splits option.splits dest: path_ok_line_to)

lemma path_ok_svg_step:
  assumes "path_ok (fst st)" and "svg_step st c = Inr (st', offset)"
  shows "path_ok (fst st')"
  using assms unfolding svg_step_def
  by (auto split: option.splits sum.splits prod.splits
      dest: path_ok_line_to path_ok_quad_bezier_to path_ok_cubic_bezier_to path_ok_close_path
        path_ok_line_horiz_to path_ok_line_vert_to
      intro: path_ok_move_to)

lemma path_ok_svg_loop:
  "path_ok (fst st) \<Longrightarrow> svg_loop st c = Inr st' \<Longrightarrow> path_ok (fst st')"
proof (induction st c rule: svg_loop.induct)
  case (1 st c)
  show ?case
  proof (cases "c = []")
    case True
    with "1.prems" show ?thesis by simp
  next
    case False
    with "1.prems"(2) obtain st1 offset where
      s: "svg_step st c = Inr (st1, offset)" and r: "svg_loop st1 (drop offset c) = Inr st'"
      by (auto split: sum.splits)
    have "path_ok (fst st1)"
      using "1.prems"(1) s by (rule path_ok_svg_step)
    with "1.IH" [OF False s refl] r show ?thesis by simp
  qed
qed

lemma built_path_ok: "built self \<Longrightarrow> path_ok self"
proof (induction rule: built.induct)
  case built_create
  show ?case by (simp add: path_ok_def le_path_create_def)
next
  case (built_add_from_simplified_svg self svg self' err)
  then show ?case
    using path_ok_svg_loop [of "(self, [])" svg "(self', err)"]
    by (simp add: le_path_add_from_simplified_svg_def)
next
  case (built_trace self self')
  then show ?case
    by (auto simp: le_path_trace_path_def path_ok_def split: sum.splits)
next
  case (built_resample self interval self')
  then show ?case
    by (auto simp: le_path_resample_def path_ok_def split: sum.splits)
next
  case (built_clear self)
  show ?case by (simp add: le_path_clear_def path_ok_def)
qed (auto intro: path_ok_move_to path_ok_line_to path_ok_quad_bezier_to
      path_ok_cubic_bezier_to path_ok_close_path)

section \<open>Invariants of traced polylines\<close>

lemma trace_inv_move_to: "trace_inv (trace_move_to default_polyline p0)"
  by (simp add: trace_inv_def trace_move_to_def default_polyline_def)

lemma trace_inv_append:
  assumes "trace_inv pl"
  shows "trace_inv (trace_append pl b q)"
proof -
  have ne: "distances pl \<noteq> []"
    using assms by (auto simp: trace_inv_def)
  have le: "total_distance pl \<le> total_distance pl + distance b q"
    using distance_nonneg [of b q] by simp
  have "\<forall>d\<in>set (distances pl). d \<le> total_distance pl + distance b q"
    using assms le by (auto simp: trace_inv_def)
  then show ?thesis
    using assms ne by (auto simp: trace_inv_def trace_append_def Let_def sorted_append)
qed

lemma trace_inv_bezier_loop:
  "trace_inv pl \<Longrightarrow> trace_inv (fst (trace_bezier_loop curve delta_t is (pl, q)))"
proof (induction "is" arbitrary: pl q)
  case Nil
  then show ?case by simp
next
  case (Cons i "is")
  then show ?case
    by (simp add: Let_def trace_inv_append)
qed

lemma trace_inv_command:
  assumes "trace_inv pl" and "drawing_command c"
  shows "\<exists>pl'. trace_command pl c = Inr pl' \<and> trace_inv pl'"
proof -
  have ne: "vertices pl \<noteq> []"
    using assms(1) by (simp add: trace_inv_def)
  consider "cmd_type c = eLineTo" | "cmd_type c = eQuadBezierTo"
    | "cmd_type c = eCubicBezierTo" | "cmd_type c = eClosePath"
    using assms(2) by (auto simp: drawing_command_def)
  then show ?thesis
  proof cases
    case 1
    then show ?thesis
      using ne assms(1) by (simp add: trace_command_def trace_line_to_def trace_inv_append)
  next
    case 2
    then show ?thesis
      using ne assms(1)
      by (simp add: trace_command_def trace_quad_bezier_to_def trace_resolution_def Let_def
          trace_inv_bezier_loop)
  next
    case 3
    then show ?thesis
      using ne assms(1)
      by (simp add: trace_command_def trace_cubic_bezier_to_def trace_resolution_def Let_def
          trace_inv_bezier_loop)
  next
    case 4
    then show ?thesis
      using ne assms(1)
      by (simp add: trace_command_def trace_close_path_def trace_line_to_def trace_inv_append)
  qed
qed

lemma trace_inv_commands:
  assumes "trace_inv pl" and "list_all drawing_command cs"
  shows "\<exists>pl'. trace_commands pl cs = Inr pl' \<and> trace_inv pl'"
  using assms
proof (induction cs arbitrary: pl)
  case Nil
  then show ?case by simp
next
  case (Cons c cs)
  from Cons.prems obtain pl1 where s: "trace_command pl c = Inr pl1" and i: "trace_inv pl1"
    using trace_inv_command [of pl c] by auto
  from Cons.IH [OF i] Cons.prems(2) obtain pl' where
    "trace_commands pl1 cs = Inr pl'" and "trace_inv pl'"
    by auto
  with s show ?case by simp
qed

lemma trace_inv_subpath:
  assumes "subpath_ok s"
  shows "\<exists>pl. trace_subpath s = Inr pl \<and> trace_inv pl"
proof -
  from assms obtain c cs where
    cs: "commands s = c # cs" and m: "cmd_type c = eMoveTo" and d: "list_all drawing_command cs"
    by (auto simp: subpath_ok_def split: list.splits)
  have "trace_command default_polyline c = Inr (trace_move_to default_polyline (cmd_p c))"
    using m by (simp add: trace_command_def)
  moreover obtain pl where
    "trace_commands (trace_move_to default_polyline (cmd_p c)) cs = Inr pl" and "trace_inv pl"
    using trace_inv_commands [OF trace_inv_move_to d] by blast
  ultimately show ?thesis
    using cs by (auto simp: trace_subpath_def trace_inv_def)
qed

lemma trace_inv_subpaths:
  assumes "list_all subpath_ok ss"
  shows "\<exists>pls. trace_subpaths ss = Inr pls \<and> length pls = length ss \<and> list_all trace_inv pls"
  using assms
proof (induction ss)
  case Nil
  then show ?case by simp
next
  case (Cons s ss)
  from Cons.prems obtain pl where "trace_subpath s = Inr pl" and "trace_inv pl"
    using trace_inv_subpath [of s] by auto
  moreover from Cons obtain pls where
    "trace_subpaths ss = Inr pls" and "length pls = length ss" and "list_all trace_inv pls"
    by auto
  ultimately show ?case by simp
qed

lemma trace_path_ok:
  assumes "path_ok self"
  shows "\<exists>self'. le_path_trace_path self = Inr self' \<and>
           length (polylines self') = length (subpaths self) \<and>
           list_all trace_inv (polylines self')"
proof -
  from assms have "list_all subpath_ok (subpaths self)"
    by (simp add: path_ok_def)
  from trace_inv_subpaths [OF this] show ?thesis
    by (auto simp: le_path_trace_path_def)
qed

text \<open>
  C5. For every path, its sub-paths each starting with MoveTo as they do in every path
  that can be built, \<^verbatim>\<open>trace()\<close> returns, with one polyline per sub-path, and in each
  polyline there are as many vertices as distances, the cumulative distances never
  decrease, and the distance of the first vertex is 0.
\<close>

theorem trace_polyline_invariants:
  assumes "built self"
  shows "\<exists>self'. le_path_trace_path self = Inr self' \<and>
           length (polylines self') = length (subpaths self) \<and>
           list_all (\<lambda>pl. length (vertices pl) = length (distances pl) \<and>
                          sorted (distances pl) \<and>
                          vertices pl \<noteq> [] \<and> hd (distances pl) = 0)
             (polylines self')"
proof -
  from assms have "path_ok self"
    by (rule built_path_ok)
  from trace_path_ok [OF this] obtain self' where
    r: "le_path_trace_path self = Inr self'"
    and l: "length (polylines self') = length (subpaths self)"
    and i: "list_all trace_inv (polylines self')"
    by blast
  have "list_all (\<lambda>pl. length (vertices pl) = length (distances pl) \<and>
                        sorted (distances pl) \<and>
                        vertices pl \<noteq> [] \<and> hd (distances pl) = 0) (polylines self')"
    using i by (auto simp: list_all_iff trace_inv_def)
  with r l show ?thesis by blast
qed

text \<open>The instance: a closed sub-path with a line and a quadratic curve, from the parser.\<close>

lemma curve_example_parsed:
  "le_path_add_from_simplified_svg le_path_create ''M 0,0 L 10,0 Q 10,10 0,10 Z'' =
     Inr (curve_example, [])"
  by code_simp

theorem trace_polyline_invariants_witness:
  "\<exists>self'. le_path_trace_path curve_example = Inr self' \<and>
      length (polylines self') = 1 \<and>
      list_all (\<lambda>pl. length (vertices pl) = length (distances pl) \<and>
                     sorted (distances pl) \<and>
                     vertices pl \<noteq> [] \<and> hd (distances pl) = 0)
        (polylines self')"
proof -
  have "built curve_example"
    using built_create curve_example_parsed by (rule built_add_from_simplified_svg)
  from trace_polyline_invariants [OF this] show ?thesis
    by (simp add: curve_example_def)
qed

section \<open>Resampling a straight segment\<close>

text \<open>
  \<open>start_distance_of s I\<close> is \<open>s\<close> modulo \<open>I\<close>: it lies in \<open>[0, I)\<close> and differs from
  \<open>s\<close> by a whole number of intervals.
\<close>

lemma start_distance_bounds:
  assumes "0 < I"
  shows "0 \<le> start_distance_of s I" and "start_distance_of s I < I"
proof -
  have "of_int \<lfloor>s / I\<rfloor> * I \<le> s"
    using assms by (rule floor_divide_lower)
  then show "0 \<le> start_distance_of s I"
    by (simp add: start_distance_of_def)
  have "s < (of_int \<lfloor>s / I\<rfloor> + 1) * I"
    using assms by (rule floor_divide_upper)
  then show "start_distance_of s I < I"
    by (simp add: start_distance_of_def algebra_simps)
qed

lemma start_distance_decomposition:
  "s = of_int \<lfloor>s / I\<rfloor> * I + start_distance_of s I"
  by (simp add: start_distance_of_def)

text \<open>
  The count is never below -1: the segment has a length of at least 0 and the start
  distance is below the interval. So the conversion to \<^verbatim>\<open>int\<close> is defined, and the loop
  counter does not overflow, as long as the floor is below the largest \<^verbatim>\<open>int\<close>.
\<close>

lemma floor_count_lower:
  assumes "0 < I" and "0 \<le> d" and "st < I"
  shows "- 1 \<le> \<lfloor>(d - st) / I\<rfloor>"
proof -
  have "- 1 \<le> (d - st) / I"
    using assms by (simp add: pos_le_divide_eq)
  then show ?thesis
    by (simp add: le_floor_iff)
qed

lemma n_intervals_of_defined:
  assumes "- 1 \<le> \<lfloor>(d - st) / I\<rfloor>" and "\<lfloor>(d - st) / I\<rfloor> \<le> 2147483647"
  shows "n_intervals_of d st I = Inr \<lfloor>(d - st) / I\<rfloor>"
proof -
  have "- 2147483648 \<le> \<lfloor>(d - st) / I\<rfloor>"
    using assms(1) by linarith
  with assms(2) show ?thesis
    unfolding n_intervals_of_def int_floor_def by (simp only: simp_thms if_True)
qed

lemma distance_on_ray:
  "distance (vadd v (smul a u)) (vadd v (smul b u)) = \<bar>b - a\<bar> * vlength u"
proof -
  have "(b * fst u - a * fst u) * (b * fst u - a * fst u) +
        (b * snd u - a * snd u) * (b * snd u - a * snd u) =
        ((b - a) * (b - a)) * (fst u * fst u + snd u * snd u)"
    by (simp add: algebra_simps)
  then have "distance (vadd v (smul a u)) (vadd v (smul b u)) =
      sqrt (((b - a) * (b - a)) * (fst u * fst u + snd u * snd u))"
    by (simp add: distance_def vadd_def smul_def)
  also have "\<dots> = \<bar>b - a\<bar> * vlength u"
    by (simp add: real_sqrt_mult vlength_def)
  finally show ?thesis .
qed

lemma distance_from_origin_of_ray:
  "distance v (vadd v (smul b u)) = \<bar>b\<bar> * vlength u"
  using distance_on_ray [of v 0 u b] by (simp add: vadd_def smul_def)

lemma direction_unit:
  assumes "distance p1 v \<noteq> 0"
  shows "vlength (sdiv (vsub p1 v) (distance p1 v)) = 1"
proof -
  let ?d = "distance p1 v"
  let ?q = "(fst p1 - fst v) * (fst p1 - fst v) + (snd p1 - snd v) * (snd p1 - snd v)"
  have q: "?d = sqrt ?q"
    using distance_commute [of p1 v] by (simp add: distance_def)
  have nn: "0 \<le> ?q" by simp
  have dd: "?d * ?d = ?q"
    unfolding q using nn by simp
  have "(fst p1 - fst v) / ?d * ((fst p1 - fst v) / ?d) +
        (snd p1 - snd v) / ?d * ((snd p1 - snd v) / ?d) = ?q / (?d * ?d)"
    by (simp add: add_divide_distrib)
  also have "\<dots> = (?d * ?d) / (?d * ?d)"
    by (simp only: dd)
  also have "\<dots> = 1"
    using assms by simp
  finally show ?thesis
    by (simp add: vlength_def sdiv_def vsub_def)
qed

lemma sample_is_point_along:
  "vadd v (smul r (sdiv (vsub p1 v) (distance p1 v))) = point_along v p1 r"
  by (simp add: point_along_def vadd_def smul_def sdiv_def vsub_def distance_commute [of p1 v])

lemma sample_is_point_along':
  "vadd v (smul r (sdiv (vsub p1 v) (distance v p1))) = point_along v p1 r"
  using sample_is_point_along [of v r p1] by (simp add: distance_commute [of p1 v])

lemma distance_point_along:
  assumes "distance v p1 \<noteq> 0" and "0 \<le> r"
  shows "distance v (point_along v p1 r) = r"
proof -
  have "distance v (vadd v (smul r (sdiv (vsub p1 v) (distance p1 v)))) =
      \<bar>r\<bar> * vlength (sdiv (vsub p1 v) (distance p1 v))"
    by (rule distance_from_origin_of_ray)
  also have "\<dots> = r"
    using assms direction_unit [of p1 v] by (simp add: distance_commute [of p1 v])
  finally show ?thesis
    by (simp add: sample_is_point_along)
qed

lemma resample_line_to_eq:
  assumes "I \<noteq> 0" and "vertices pl \<noteq> []"
    and "n_intervals_of (distance (last (vertices pl)) p1) (start_distance_of s I) I = Inr n"
    and "n \<noteq> 2147483647"
  shows "resample_line_to pl p1 I s =
     Inr (pl\<lparr>vertices := vertices pl @
            map (\<lambda>i. point_along (last (vertices pl)) p1
                        (start_distance_of s I + of_int i * I))
              [1..n]\<rparr>,
          s + (start_distance_of s I + of_int n * I))"
  using assms
  by (simp add: resample_line_to_def Let_def sample_is_point_along' add.commute
      distance_commute [of p1])

lemma upto_1_10: "[1..10] = [1, 2, 3, 4, 5, 6, 7, 8, 9, 10::int]"
  by code_simp

lemma resample_segment_100:
  "resample_commands 10 (default_polyline, 0) segment_100 =
     Inr (\<lparr>vertices = [(0, 0), (10, 0), (20, 0), (30, 0), (40, 0), (50, 0), (60, 0), (70, 0),
                        (80, 0), (90, 0), (100, 0)],
           distances = [], total_distance = 0\<rparr>, 100)"
proof -
  have n: "n_intervals_of 100 0 10 = Inr 10"
    by (simp add: n_intervals_of_def int_floor_def)
  have st: "start_distance_of 0 10 = 0"
    by (simp add: start_distance_of_def)
  show ?thesis
    by (simp add: segment_100_def resample_command_def resample_move_to_def
        default_polyline_def resample_line_to_def distance_same_y Let_def n st upto_1_10
        vadd_def smul_def sdiv_def vsub_def)
qed

text \<open>
  The statement of C1 as written, for every LineTo, fails where the count leaves the
  range of \<^verbatim>\<open>int\<close>: for the segment from (0,0) to (3000000000,0) at interval 1 the
  floor is 3000000000, the conversion \<^verbatim>\<open>int(std::floor(..))\<close> is undefined, and
  \<^verbatim>\<open>resample\<close> gives no polyline with the 3000000000 vertices of the statement.
\<close>

theorem resample_line_to_int_range_counterexample:
  "le_path_line_to (le_path_move_to le_path_create (0, 0)) (3000000000, 0) = Inr long_path \<and>
   le_path_resample long_path 1 = Inl UndefinedBehaviour \<and>
   resample_line_to origin_polyline (3000000000, 0) 1 0 = Inl UndefinedBehaviour \<and>
   \<lfloor>(distance (0, 0) (3000000000, 0) - start_distance_of 0 1) / 1\<rfloor> = 3000000000"
proof -
  have p: "le_path_line_to (le_path_move_to le_path_create (0, 0)) (3000000000, 0) =
      Inr long_path"
    by (simp add: le_path_line_to_def le_path_move_to_def le_path_create_def push_command_def
        long_path_def zero_vertex_def)
  have st: "start_distance_of 0 1 = 0"
    by (simp add: start_distance_of_def)
  have d: "distance (3000000000, 0) (0, 0) = 3000000000"
    "distance (0, 0) (3000000000, 0) = 3000000000"
    by (simp_all add: distance_same_y)
  have n: "n_intervals_of 3000000000 0 1 = Inl UndefinedBehaviour"
    by (simp add: n_intervals_of_def int_floor_def)
  have l: "resample_line_to origin_polyline (3000000000, 0) 1 0 = Inl UndefinedBehaviour"
    by (simp add: resample_line_to_def origin_polyline_def Let_def st d n)
  have r: "le_path_resample long_path 1 = Inl UndefinedBehaviour"
    by (simp add: le_path_resample_def long_path_def resample_subpath_def
        resample_command_def resample_move_to_def default_polyline_def
        resample_line_to_def Let_def st d n)
  have f: "\<lfloor>(distance (0, 0) (3000000000, 0) - start_distance_of 0 1) / 1\<rfloor> = 3000000000"
    by (simp add: st d)
  from p r l f show ?thesis by blast
qed

text \<open>
  C1, amended. For a LineTo processed by the resampler with interval \<open>I > 0\<close>, on a
  polyline whose last vertex is \<open>v\<close>, with \<open>d\<close> the distance from \<open>v\<close> to the target, \<open>st\<close>
  the sum modulo \<open>I\<close>, and the count \<open>n = floor ((d - st) / I)\<close> below 2147483647, the
  largest \<^verbatim>\<open>int\<close>: the conversion gives \<open>n\<close>; the vertices appended are, for \<open>i\<close> from
  1 to \<open>n\<close> in this order, the points at distance \<open>st + i * I\<close> from \<open>v\<close> along the
  segment (each at that distance from \<open>v\<close>, and no further than the target); and the sum
  grows by exactly \<open>st + n * I\<close>. In particular MoveTo (0,0), LineTo (100,0) at interval
  10 gives the ten further vertices at 10, 20, ..., 100.
\<close>

theorem resample_line_to_samples:
  assumes "0 < I" and "vertices pl \<noteq> []"
    and "v = last (vertices pl)" and "d = distance v p1"
    and "st = start_distance_of s I" and "n = \<lfloor>(d - st) / I\<rfloor>"
    and "n < 2147483647"
  shows "0 \<le> st \<and> st < I \<and> s = of_int \<lfloor>s / I\<rfloor> * I + st \<and>
         n_intervals_of d st I = Inr n \<and>
         resample_line_to pl p1 I s =
           Inr (pl\<lparr>vertices := vertices pl @
                  map (\<lambda>i. point_along v p1 (st + of_int i * I)) [1..n]\<rparr>,
                s + (st + of_int n * I)) \<and>
         (\<forall>i\<in>{1..n}. distance v (point_along v p1 (st + of_int i * I)) = st + of_int i * I \<and>
                     st + of_int i * I \<le> d) \<and>
         resample_subpath 10 \<lparr>commands = segment_100\<rparr> =
           Inr \<lparr>vertices = [(0, 0), (10, 0), (20, 0), (30, 0), (40, 0), (50, 0), (60, 0),
                             (70, 0), (80, 0), (90, 0), (100, 0)],
                distances = [], total_distance = 0\<rparr>"
proof -
  have st_lo: "0 \<le> st" and st_hi: "st < I"
    using start_distance_bounds [OF assms(1), of s] assms(5) by simp_all
  have dec: "s = of_int \<lfloor>s / I\<rfloor> * I + st"
    unfolding assms(5) by (rule start_distance_decomposition)
  have d_nn: "0 \<le> d"
    unfolding assms(4) by (rule distance_nonneg)
  have lo: "- 1 \<le> \<lfloor>(d - st) / I\<rfloor>"
    using assms(1) d_nn st_hi by (rule floor_count_lower)
  have hi: "\<lfloor>(d - st) / I\<rfloor> \<le> 2147483647"
    using assms(6,7) by simp
  have n: "n_intervals_of d st I = Inr n"
    unfolding assms(6) using lo hi by (rule n_intervals_of_defined)
  have ne: "n \<noteq> 2147483647"
    using assms(7) by simp
  have run: "resample_line_to pl p1 I s =
      Inr (pl\<lparr>vertices := vertices pl @
             map (\<lambda>i. point_along v p1 (st + of_int i * I)) [1..n]\<rparr>,
           s + (st + of_int n * I))"
    using resample_line_to_eq [of I pl p1 s n] assms(1-5) n ne by simp
  have pts: "\<forall>i\<in>{1..n}. distance v (point_along v p1 (st + of_int i * I)) = st + of_int i * I \<and>
                     st + of_int i * I \<le> d"
  proof
    fix i :: int
    assume i: "i \<in> {1..n}"
    have "of_int i * I \<le> of_int n * I"
      using i assms(1) by simp
    also have "\<dots> \<le> d - st"
      unfolding assms(6) using assms(1) by (rule floor_divide_lower)
    finally have le: "st + of_int i * I \<le> d"
      by simp
    have "0 < of_int i * I"
      using i assms(1) by simp
    with st_lo have pos: "0 < st + of_int i * I"
      by simp
    with le have "distance v p1 \<noteq> 0"
      using assms(4) by simp
    then have "distance v (point_along v p1 (st + of_int i * I)) = st + of_int i * I"
      using pos by (simp add: distance_point_along)
    with le show "distance v (point_along v p1 (st + of_int i * I)) = st + of_int i * I \<and>
                     st + of_int i * I \<le> d"
      by simp
  qed
  have ex: "resample_subpath 10 \<lparr>commands = segment_100\<rparr> =
           Inr \<lparr>vertices = [(0, 0), (10, 0), (20, 0), (30, 0), (40, 0), (50, 0), (60, 0),
                             (70, 0), (80, 0), (90, 0), (100, 0)],
                distances = [], total_distance = 0\<rparr>"
    by (simp add: resample_subpath_def resample_segment_100)
  from st_lo st_hi dec n run pts ex show ?thesis
    by blast
qed

text \<open>The instance: the segment from (0,0) to (100,0) at interval 10, sum 0.\<close>

theorem resample_line_to_samples_witness:
  "start_distance_of 0 10 = 0 \<and> n_intervals_of 100 0 10 = Inr 10 \<and>
   resample_line_to origin_polyline (100, 0) 10 0 =
     Inr (origin_polyline\<lparr>vertices := vertices origin_polyline @
            map (\<lambda>i. point_along (0, 0) (100, 0) (0 + of_int i * 10)) [1..10]\<rparr>,
          0 + (0 + of_int 10 * 10)) \<and>
   distance (0, 0) (point_along (0, 0) (100, 0) (0 + of_int 3 * 10)) = 0 + of_int 3 * 10"
proof -
  have a: "(0::real) < 10" by simp
  have b: "vertices origin_polyline \<noteq> []"
    by (simp add: origin_polyline_def)
  have c: "(0, 0) = last (vertices origin_polyline)"
    by (simp add: origin_polyline_def)
  have d: "100 = distance (0, 0) (100, 0)"
    by (simp add: distance_same_y)
  have e: "0 = start_distance_of 0 10"
    by (simp add: start_distance_of_def)
  have f: "(10::int) = \<lfloor>((100::real) - 0) / 10\<rfloor>"
    by simp
  have h: "(10::int) < 2147483647" by simp
  have g: "(3::int) \<in> {1..10}" by simp
  from resample_line_to_samples [OF a b c d e f h] have
    n: "n_intervals_of 100 0 10 = Inr 10"
    and r: "resample_line_to origin_polyline (100, 0) 10 0 =
     Inr (origin_polyline\<lparr>vertices := vertices origin_polyline @
            map (\<lambda>i. point_along (0, 0) (100, 0) (0 + of_int i * 10)) [1..10]\<rparr>,
          0 + (0 + of_int 10 * 10))"
    and p: "\<forall>i\<in>{1..10}. distance (0, 0) (point_along (0, 0) (100, 0) (0 + of_int i * 10)) =
               0 + of_int i * 10 \<and> 0 + of_int i * 10 \<le> (100::real)"
    by blast+
  from p g have "distance (0, 0) (point_along (0, 0) (100, 0) (0 + of_int 3 * 10)) =
      0 + of_int 3 * 10"
    by blast
  with r e n show ?thesis
    by (simp only: simp_thms)
qed

section \<open>Spacing of resampled vertices\<close>

lemma resample_commands_append:
  "resample_commands I st (cs @ ds) =
     (case resample_commands I st cs of
        Inl f \<Rightarrow> Inl f
      | Inr st' \<Rightarrow> resample_commands I st' ds)"
  by (induction cs arbitrary: st) (auto split: sum.splits)

text \<open>
  Resampling the closed triangle at interval 25: ClosePath adds the 5 units from (3,4)
  back to the start to the sum, which is then 80.
\<close>

lemma sqrt_25: "sqrt 25 = 5"
  by (rule sqrt_of_square) simp_all

lemma sqrt_625: "sqrt 625 = 25"
  by (rule sqrt_of_square) simp_all

lemma sqrt_900: "sqrt 900 = 30"
  by (rule sqrt_of_square) simp_all

lemma upto_1_1: "[1..1] = [1::int]"
  by code_simp

lemma upto_1_3: "[1..3] = [1, 2, 3::int]"
  by code_simp

lemma upto_1_4: "[1..4] = [1, 2, 3, 4::int]"
  by code_simp

lemma upto_1_neg: "[1..-1] = ([]::int list)"
  by code_simp

lemmas resample_eval =
  resample_command_def resample_move_to_def default_polyline_def resample_line_to_def
  resample_close_path_def Let_def distance_def start_distance_of_def n_intervals_of_def
  int_floor_def sqrt_25 sqrt_625 sqrt_900 vadd_def smul_def sdiv_def vsub_def
  upto_1_1 upto_1_3 upto_1_4 upto_1_neg

lemma resample_triangle:
  "resample_commands 25 (default_polyline, 0) triangle = Inr (triangle_polyline, 80)"
  by (simp add: triangle_def triangle_polyline_def resample_eval)

lemma resample_triangle_short_line:
  "resample_line_to triangle_polyline (3, 0) 25 80 = Inr (triangle_polyline, 60)"
  by (simp add: triangle_polyline_def resample_eval)

text \<open>
  C2. Every two consecutive vertices of a resampled polyline are to be about one
  interval apart, the duplicate vertex of ClosePath excepted. The code does not keep
  this. \<^verbatim>\<open>resample_line_to\<close> places its samples at \<open>start_distance + i * interval\<close> from
  the last vertex, so once the sum is not a whole number of intervals the first gap of a
  line is longer than the interval by the start distance. For the path of
  \<^verbatim>\<open>M 0,0 L 25,0 L 18,24 Z L 100,0 L 200,0\<close> at interval 25, a path without a curve,
  ClosePath leaves the sum at 80; the line to (100,0) then starts with the vertex (30,0),
  30 away from (0,0), and the line to (200,0) with the vertex (115,0), 35 away from
  (80,0).
\<close>

theorem resample_after_close_path_gaps:
  "le_path_add_from_simplified_svg le_path_create ''M 0,0 L 25,0 L 18,24 Z L 100,0 L 200,0'' =
     Inr (closed_then_lines, []) \<and>
   le_path_resample closed_then_lines 25 =
     Inr (closed_then_lines
       \<lparr>polylines :=
          [\<lparr>vertices = [(0, 0), (25, 0), (18, 24), (3, 4), (0, 0), (30, 0), (55, 0), (80, 0),
                         (115, 0), (140, 0), (165, 0), (190, 0)],
            distances = [], total_distance = 0\<rparr>],
        sample_interval := 25\<rparr>) \<and>
   distance (0, 0) (30, 0) = 30 \<and>
   distance (80, 0) (115, 0) = 35"
proof -
  have "le_path_add_from_simplified_svg le_path_create
      ''M 0,0 L 25,0 L 18,24 Z L 100,0 L 200,0'' = Inr (closed_then_lines, [])"
    by code_simp
  moreover have "resample_commands 25 (triangle_polyline, 80)
      [\<lparr>cmd_type = eLineTo, cmd_p = (100, 0), cmd_c1 = (0, 0), cmd_c2 = (0, 0)\<rparr>,
       \<lparr>cmd_type = eLineTo, cmd_p = (200, 0), cmd_c1 = (0, 0), cmd_c2 = (0, 0)\<rparr>] =
      Inr (\<lparr>vertices = [(0, 0), (25, 0), (18, 24), (3, 4), (0, 0), (30, 0), (55, 0), (80, 0),
                         (115, 0), (140, 0), (165, 0), (190, 0)],
            distances = [], total_distance = 0\<rparr>, 270)"
    by (simp add: triangle_polyline_def resample_eval)
  then have "le_path_resample closed_then_lines 25 =
     Inr (closed_then_lines
       \<lparr>polylines :=
          [\<lparr>vertices = [(0, 0), (25, 0), (18, 24), (3, 4), (0, 0), (30, 0), (55, 0), (80, 0),
                         (115, 0), (140, 0), (165, 0), (190, 0)],
            distances = [], total_distance = 0\<rparr>],
        sample_interval := 25\<rparr>)"
    by (simp add: le_path_resample_def closed_then_lines_def resample_subpath_def
        resample_commands_append resample_triangle)
  moreover have "distance (0, 0) (30, 0) = 30" "distance (80, 0) (115, 0) = 35"
    by (simp_all add: distance_same_y)
  ultimately show ?thesis by blast
qed

section \<open>A segment shorter than the start distance\<close>

lemma resample_triangle_then_short_line:
  "resample_commands 25 (default_polyline, 0) (triangle @ [short_line]) =
     Inr (triangle_polyline, 60)"
  by (simp add: resample_commands_append resample_triangle short_line_def
      resample_command_def resample_triangle_short_line)

text \<open>
  C10. For a LineTo processed by the resampler with interval \<open>I > 0\<close> whose segment is
  shorter than the start distance (the sum modulo \<open>I\<close>), the count of intervals is
  negative (it is -1), no vertex is appended, and the sum decreases by \<open>I\<close> minus the
  start distance. So the sum is not monotone over the commands of a sub-path: resampling
  the closed triangle at interval 25 leaves the sum at 80, and one more short LineTo
  brings it to 60.
\<close>

theorem resample_line_to_short_segment:
  assumes "0 < I" and "vertices pl \<noteq> []"
    and "distance (last (vertices pl)) p1 < start_distance_of s I"
  shows "n_intervals_of (distance (last (vertices pl)) p1) (start_distance_of s I) I =
           Inr (- 1) \<and>
         resample_line_to pl p1 I s = Inr (pl, s - (I - start_distance_of s I)) \<and>
         s - (I - start_distance_of s I) < s \<and>
         resample_commands 25 (default_polyline, 0) triangle = Inr (triangle_polyline, 80) \<and>
         resample_commands 25 (default_polyline, 0) (triangle @ [short_line]) =
           Inr (triangle_polyline, 60)"
proof -
  let ?d = "distance (last (vertices pl)) p1"
  let ?st = "start_distance_of s I"
  have st: "0 \<le> ?st" "?st < I"
    using start_distance_bounds [OF assms(1)] by simp_all
  have d: "0 \<le> ?d"
    by (rule distance_nonneg)
  have lo: "- 1 \<le> (?d - ?st) / I"
    using assms(1) st d by (simp add: pos_le_divide_eq)
  have hi: "(?d - ?st) / I < 0"
    using assms(1,3) by (simp add: pos_divide_less_eq)
  have fl: "\<lfloor>(?d - ?st) / I\<rfloor> = - 1"
    using lo hi by (intro floor_unique) simp_all
  have n: "n_intervals_of ?d ?st I = Inr (- 1)"
    using n_intervals_of_defined [of ?d ?st I] by (simp add: fl)
  have "resample_line_to pl p1 I s = Inr (pl, s + (?st + of_int (- 1) * I))"
    using resample_line_to_eq [of I pl p1 s "- 1"] assms(1,2) n by simp
  then have run: "resample_line_to pl p1 I s = Inr (pl, s - (I - ?st))"
    by simp
  have "s - (I - ?st) < s"
    using st by simp
  with n run resample_triangle resample_triangle_then_short_line show ?thesis
    by blast
qed

text \<open>The instance: the line to (3,0) after the closed triangle, sum 80, interval 25.\<close>

theorem resample_line_to_short_segment_witness:
  "start_distance_of 80 25 = 5 \<and>
   distance (last (vertices triangle_polyline)) (3, 0) = 3 \<and>
   n_intervals_of 3 5 25 = Inr (- 1) \<and>
   resample_line_to triangle_polyline (3, 0) 25 80 = Inr (triangle_polyline, 60)"
proof -
  have st: "start_distance_of 80 25 = 5"
    by (simp add: start_distance_of_def)
  have d: "distance (last (vertices triangle_polyline)) (3, 0) = 3"
    by (simp add: triangle_polyline_def distance_same_y)
  have a: "(0::real) < 25" by simp
  have b: "vertices triangle_polyline \<noteq> []"
    by (simp add: triangle_polyline_def)
  have c: "distance (last (vertices triangle_polyline)) (3, 0) < start_distance_of 80 25"
    by (simp add: st d)
  from resample_line_to_short_segment [OF a b c] st d show ?thesis
    by simp
qed

section \<open>The parser, then the tracer\<close>

lemma trace_corner_path:
  "le_path_trace_path corner_path =
     Inr (corner_path
       \<lparr>polylines :=
          [\<lparr>vertices = [(0, 0), (10, 0), (10, 10), (0, 0)],
            distances = [0, 10, 20, 20 + sqrt 200],
            total_distance = 20 + sqrt 200\<rparr>]\<rparr>)"
  by (simp add: le_path_trace_path_def corner_path_def trace_subpath_def trace_command_def
      trace_move_to_def trace_line_to_def trace_close_path_def trace_append_def
      default_polyline_def Let_def distance_def)

lemma sqrt_200_not_10: "sqrt 200 \<noteq> 10"
proof
  assume "sqrt 200 = 10"
  then have "sqrt 200 * sqrt 200 = 10 * 10" by simp
  then show False by simp
qed

text \<open>
  The statement of C6 as written fails twice. The matcher of each command letter needs
  white space after the letter, so in \<^verbatim>\<open>M0,0 L10,0 L10,10 Z\<close> only \<^verbatim>\<open>Z\<close> matches,
  and \<^verbatim>\<open>le_path_close_path\<close> on the path without sub-path is undefined. And tracing
  the four commands the string is meant to give does not end at the distance 30: the
  closing segment from (10,10) to (0,0) has the length \<open>sqrt 200\<close>, not 10.
\<close>

theorem parse_then_trace_counterexample:
  "le_path_add_from_simplified_svg le_path_create ''M0,0 L10,0 L10,10 Z'' =
     Inl UndefinedBehaviour \<and>
   le_path_trace_path corner_path \<noteq>
     Inr (corner_path
       \<lparr>polylines :=
          [\<lparr>vertices = [(0, 0), (10, 0), (10, 10), (0, 0)],
            distances = [0, 10, 20, 30],
            total_distance = 30\<rparr>]\<rparr>)"
proof -
  have "le_path_add_from_simplified_svg le_path_create ''M0,0 L10,0 L10,10 Z'' =
     Inl UndefinedBehaviour"
    by code_simp
  moreover have "le_path_trace_path corner_path \<noteq>
     Inr (corner_path
       \<lparr>polylines :=
          [\<lparr>vertices = [(0, 0), (10, 0), (10, 10), (0, 0)],
            distances = [0, 10, 20, 30],
            total_distance = 30\<rparr>]\<rparr>)"
  proof
    assume "le_path_trace_path corner_path =
     Inr (corner_path
       \<lparr>polylines :=
          [\<lparr>vertices = [(0, 0), (10, 0), (10, 10), (0, 0)],
            distances = [0, 10, 20, 30],
            total_distance = 30\<rparr>]\<rparr>)"
    then have "corner_path
       \<lparr>polylines :=
          [\<lparr>vertices = [(0, 0), (10, 0), (10, 10), (0, 0)],
            distances = [0, 10, 20, 20 + sqrt 200],
            total_distance = 20 + sqrt 200\<rparr>]\<rparr> =
      corner_path
       \<lparr>polylines :=
          [\<lparr>vertices = [(0, 0), (10, 0), (10, 10), (0, 0)],
            distances = [0, 10, 20, 30],
            total_distance = 30\<rparr>]\<rparr>"
      by (simp only: trace_corner_path sum.inject)
    then have "polylines (corner_path
       \<lparr>polylines :=
          [\<lparr>vertices = [(0, 0), (10, 0), (10, 10), (0, 0)],
            distances = [0, 10, 20, 20 + sqrt 200],
            total_distance = 20 + sqrt 200\<rparr>]\<rparr>) =
      polylines (corner_path
       \<lparr>polylines :=
          [\<lparr>vertices = [(0, 0), (10, 0), (10, 10), (0, 0)],
            distances = [0, 10, 20, 30],
            total_distance = 30\<rparr>]\<rparr>)"
      by (rule arg_cong)
    then have "sqrt 200 = 10"
      by simp
    with sqrt_200_not_10 show False
      by simp
  qed
  ultimately show ?thesis by blast
qed

text \<open>
  C6, amended. Parsing \<^verbatim>\<open>M 0,0 L 10,0 L 10,10 Z\<close> into an empty path and tracing it
  gives exactly one polyline, with the 4 vertices (0,0), (10,0), (10,10), (0,0) and the
  cumulative distances 0, 10, 20 and \<open>20 + sqrt 200\<close>.
\<close>

theorem parse_then_trace_closed_corner:
  "le_path_add_from_simplified_svg le_path_create ''M 0,0 L 10,0 L 10,10 Z'' =
     Inr (corner_path, []) \<and>
   le_path_trace_path corner_path =
     Inr (corner_path
       \<lparr>polylines :=
          [\<lparr>vertices = [(0, 0), (10, 0), (10, 10), (0, 0)],
            distances = [0, 10, 20, 20 + sqrt 200],
            total_distance = 20 + sqrt 200\<rparr>]\<rparr>) \<and>
   le_path_get_num_polylines
     (corner_path
       \<lparr>polylines :=
          [\<lparr>vertices = [(0, 0), (10, 0), (10, 10), (0, 0)],
            distances = [0, 10, 20, 20 + sqrt 200],
            total_distance = 20 + sqrt 200\<rparr>]\<rparr>) = 1"
proof -
  have "le_path_add_from_simplified_svg le_path_create ''M 0,0 L 10,0 L 10,10 Z'' =
     Inr (corner_path, [])"
    by code_simp
  then show ?thesis
    by (simp add: trace_corner_path le_path_get_num_polylines_def)
qed

end
